theory Spec2Isabelle
  imports Complex_Main
begin

section \<open>Python values used by the analyzer\<close>

subsection \<open>Strings\<close>

text \<open>
  A Python \<^verbatim>\<open>str\<close> is a sequence of Unicode code points, so it is modelled as a list
  of integers, one element per code point, the integer \<^verbatim>\<open>ord\<close> gives: slicing and
  \<^verbatim>\<open>replace\<close> then count what Python counts, also for the Korean labels and for
  provider messages outside ASCII. ASCII literals are written through \<open>ascii\<close>.
\<close>

type_synonym pystr = "int list"

definition ascii :: "string \<Rightarrow> pystr" where
  "ascii s = map of_char s"

text \<open>\<^verbatim>\<open>s.replace(c, "")\<close> for a one-character \<open>c\<close>: every occurrence goes.\<close>

definition remove_char :: "int \<Rightarrow> pystr \<Rightarrow> pystr" where
  "remove_char c s = filter (\<lambda>x. x \<noteq> c) s"

function digits_of :: "int \<Rightarrow> pystr" where
  "digits_of n = (if n < 10 then [48 + n] else digits_of (n div 10) @ [48 + n mod 10])"
  by pat_completeness auto
termination
  by (relation "measure nat") auto

declare digits_of.simps [simp del]

subsection \<open>Floats\<close>

text \<open>
  A Python \<^verbatim>\<open>float\<close> is an IEEE 754 binary64 value. \<open>Finite s m\<close> is the finite value
  with sign bit \<open>s\<close> (\<open>True\<close> for negative) and magnitude \<open>m\<close>, so that both zeros
  exist; the magnitude is always read through \<open>abs\<close>. Every arithmetic operation
  computes the exact rational result and rounds it to the nearest binary64 value, ties to
  even, as the hardware does.
\<close>

datatype pyfloat = Finite bool rat | Infinity bool | NaN

definition pow2 :: "int \<Rightarrow> rat" where
  "pow2 e = (if 0 \<le> e then 2 ^ nat e else 1 / 2 ^ nat (- e))"

definition pow10 :: "int \<Rightarrow> rat" where
  "pow10 e = (if 0 \<le> e then 10 ^ nat e else 1 / 10 ^ nat (- e))"

text \<open>Round to the nearest integer, ties to even.\<close>

definition rne :: "rat \<Rightarrow> int" where
  "rne q = (let f = \<lfloor>q\<rfloor>; r = q - of_int f in
     if r < 1 / 2 then f else if 1 / 2 < r then f + 1 else if even f then f else f + 1)"

function bit_length :: "int \<Rightarrow> int" where
  "bit_length a = (if 0 < a then bit_length (a div 2) + 1 else 0)"
  by pat_completeness auto
termination
  by (relation "measure nat") auto

declare bit_length.simps [simp del]

text \<open>\<open>floor_log2 q\<close> is the \<open>e\<close> with \<open>2 ^ e \<le> q < 2 ^ (e + 1)\<close>, for \<open>q > 0\<close>.\<close>

definition floor_log2 :: "rat \<Rightarrow> int" where
  "floor_log2 q = (let k = bit_length (fst (quotient_of q)) - bit_length (snd (quotient_of q))
     in if pow2 k \<le> q then k else k - 1)"

text \<open>
  Rounding a non-negative rational to binary64: 53 significant bits, the unit in the
  last place never below \<open>2 ^ - 1074\<close> (subnormals), overflow to infinity once the
  rounded value reaches \<open>2 ^ 1024\<close>.
\<close>

definition round_to_double :: "bool \<Rightarrow> rat \<Rightarrow> pyfloat" where
  "round_to_double s q =
     (if q \<le> 0 then Finite s 0
      else let e0 = floor_log2 q;
               e = max (e0 - 52) (- 1074);
               m = rne (q / pow2 e)
           in if 1023 < e0 \<or> (e0 = 1023 \<and> 2 ^ 53 \<le> m) then Infinity s
              else Finite s (of_int m * pow2 e))"

definition sval :: "bool \<Rightarrow> rat \<Rightarrow> rat" where
  "sval s m = (if s then - \<bar>m\<bar> else \<bar>m\<bar>)"

fun is_nan :: "pyfloat \<Rightarrow> bool" where
  "is_nan NaN = True"
| "is_nan _ = False"

fun is_zero :: "pyfloat \<Rightarrow> bool" where
  "is_zero (Finite s m) = (m = 0)"
| "is_zero _ = False"

fun sign_bit :: "pyfloat \<Rightarrow> bool" where
  "sign_bit (Finite s m) = s"
| "sign_bit (Infinity s) = s"
| "sign_bit NaN = False"

fun fneg :: "pyfloat \<Rightarrow> pyfloat" where
  "fneg (Finite s m) = Finite (\<not> s) m"
| "fneg (Infinity s) = Infinity (\<not> s)"
| "fneg NaN = NaN"

fun fadd :: "pyfloat \<Rightarrow> pyfloat \<Rightarrow> pyfloat" where
  "fadd NaN y = NaN"
| "fadd x NaN = NaN"
| "fadd (Infinity s) (Infinity t) = (if s = t then Infinity s else NaN)"
| "fadd (Infinity s) (Finite t n) = Infinity s"
| "fadd (Finite s m) (Infinity t) = Infinity t"
| "fadd (Finite s m) (Finite t n) =
     (let r = sval s m + sval t n
      in if r = 0 then Finite (s \<and> t) 0 else round_to_double (r < 0) \<bar>r\<bar>)"

definition fsub :: "pyfloat \<Rightarrow> pyfloat \<Rightarrow> pyfloat" where
  "fsub x y = fadd x (fneg y)"

fun fmul :: "pyfloat \<Rightarrow> pyfloat \<Rightarrow> pyfloat" where
  "fmul NaN y = NaN"
| "fmul x NaN = NaN"
| "fmul (Infinity s) (Infinity t) = Infinity (s \<noteq> t)"
| "fmul (Infinity s) (Finite t n) = (if n = 0 then NaN else Infinity (s \<noteq> t))"
| "fmul (Finite s m) (Infinity t) = (if m = 0 then NaN else Infinity (s \<noteq> t))"
| "fmul (Finite s m) (Finite t n) = round_to_double (s \<noteq> t) (\<bar>m\<bar> * \<bar>n\<bar>)"

text \<open>IEEE division; Python reaches it only with a divisor that is not zero.\<close>

fun fdiv :: "pyfloat \<Rightarrow> pyfloat \<Rightarrow> pyfloat" where
  "fdiv NaN y = NaN"
| "fdiv x NaN = NaN"
| "fdiv (Infinity s) (Infinity t) = NaN"
| "fdiv (Infinity s) (Finite t n) = Infinity (s \<noteq> t)"
| "fdiv (Finite s m) (Infinity t) = Finite (s \<noteq> t) 0"
| "fdiv (Finite s m) (Finite t n) =
     (if n = 0 then (if m = 0 then NaN else Infinity (s \<noteq> t))
      else round_to_double (s \<noteq> t) (\<bar>m\<bar> / \<bar>n\<bar>))"

text \<open>
  Comparison: a NaN compares false with everything; otherwise the order is that of the
  extended reals (the two zeros are equal).
\<close>

fun fkey :: "pyfloat \<Rightarrow> (int \<times> rat) option" where
  "fkey NaN = None"
| "fkey (Infinity s) = Some (if s then - 1 else 1, 0)"
| "fkey (Finite s m) = Some (0, sval s m)"

definition fless :: "pyfloat \<Rightarrow> pyfloat \<Rightarrow> bool" where
  "fless x y = (case (fkey x, fkey y) of
      (Some (a, u), Some (b, v)) \<Rightarrow> a < b \<or> (a = b \<and> u < v)
    | _ \<Rightarrow> False)"

definition fle :: "pyfloat \<Rightarrow> pyfloat \<Rightarrow> bool" where
  "fle x y = (case (fkey x, fkey y) of
      (Some (a, u), Some (b, v)) \<Rightarrow> a < b \<or> (a = b \<and> u \<le> v)
    | _ \<Rightarrow> False)"

text \<open>
  The integer constants the source compares and multiplies floats with (\<^verbatim>\<open>0\<close>,
  \<^verbatim>\<open>10\<close>, \<^verbatim>\<open>100\<close>) are exactly representable.
\<close>

definition fconst :: "int \<Rightarrow> pyfloat" where
  "fconst n = Finite (n < 0) (of_int \<bar>n\<bar>)"

text \<open>
  \<^verbatim>\<open>round(x, n)\<close>: infinities and NaN round to themselves; a finite value is rounded
  exactly to \<open>n\<close> decimals, ties to even, and the decimal result is converted back to
  the nearest float. The sign is kept, so a small negative value rounds to \<^verbatim>\<open>-0.0\<close>.
\<close>

fun py_round :: "pyfloat \<Rightarrow> nat \<Rightarrow> pyfloat" where
  "py_round (Finite s m) n = round_to_double s (of_int (rne (\<bar>m\<bar> * 10 ^ n)) / 10 ^ n)"
| "py_round x n = x"

subsection \<open>Floats as text\<close>

text \<open>
  \<open>decimal_exponent q\<close> is the \<open>k\<close> with \<open>10 ^ (k - 1) \<le> q < 10 ^ k\<close>, for
  \<open>q > 0\<close>.
\<close>

definition decimal_exponent :: "rat \<Rightarrow> int" where
  "decimal_exponent q =
     (let k = int (length (digits_of (fst (quotient_of q))))
            - int (length (digits_of (snd (quotient_of q))))
      in if pow10 k \<le> q then k + 1 else k)"

text \<open>
  \<^verbatim>\<open>repr\<close> of a float prints the shortest digit string that reads back as the same
  float and, among those of that length, the one nearest to it. \<open>repr_candidate m k n\<close>
  looks for it among the decimals of \<open>n\<close> significant digits: only the two
  neighbours of \<open>m\<close> can read back as \<open>m\<close>. The result is the digits as an integer
  together with the power of ten it is scaled by.
\<close>

definition repr_candidate :: "rat \<Rightarrow> int \<Rightarrow> nat \<Rightarrow> (int \<times> int) option" where
  "repr_candidate m k n =
     (let sc = pow10 (k - int n);
          lo = \<lfloor>m / sc\<rfloor>;
          hi = lo + 1;
          oklo = (round_to_double False (of_int lo * sc) = Finite False m);
          okhi = (round_to_double False (of_int hi * sc) = Finite False m);
          nearlo = (m - of_int lo * sc \<le> of_int hi * sc - m)
      in if oklo \<and> (nearlo \<or> \<not> okhi) then Some (lo, k - int n)
         else if okhi then Some (hi, k - int n)
         else None)"

text \<open>Seventeen significant digits always identify a binary64 value.\<close>

fun shortest_digits :: "nat \<Rightarrow> rat \<Rightarrow> int \<Rightarrow> nat \<Rightarrow> int \<times> int" where
  "shortest_digits 0 m k n = (rne (m / pow10 (k - int n)), k - int n)"
| "shortest_digits (Suc fuel) m k n =
     (case repr_candidate m k n of
        Some r \<Rightarrow> r
      | None \<Rightarrow> shortest_digits fuel m k (Suc n))"

function strip_zeros :: "int \<times> int \<Rightarrow> int \<times> int" where
  "strip_zeros (d, e) = (if d \<noteq> 0 \<and> d mod 10 = 0 then strip_zeros (d div 10, e + 1) else (d, e))"
  by pat_completeness auto
termination
  by (relation "measure (\<lambda>(d, e). nat \<bar>d\<bar>)") auto

declare strip_zeros.simps [simp del]

definition zeros :: "int \<Rightarrow> pystr" where
  "zeros n = replicate (nat n) 48"

text \<open>
  The layout of \<^verbatim>\<open>repr\<close>: with \<open>p\<close> the position of the decimal point after the first
  digit counted from the left, the exponent form is used when \<open>p \<le> - 4\<close> or
  \<open>16 < p\<close>, and a plain integer value gets \<^verbatim>\<open>.0\<close> appended.
\<close>

definition repr_layout :: "pystr \<Rightarrow> int \<Rightarrow> pystr" where
  "repr_layout ds p =
     (if p \<le> - 4 \<or> 16 < p then
        take 1 ds @ (if 1 < length ds then 46 # drop 1 ds else [])
        @ [101] @ (if p - 1 < 0 then [45] else [43])
        @ (if \<bar>p - 1\<bar> < 10 then [48] else []) @ digits_of \<bar>p - 1\<bar>
      else if p \<le> 0 then ascii ''0.'' @ zeros (- p) @ ds
      else if int (length ds) \<le> p then ds @ zeros (p - int (length ds)) @ ascii ''.0''
      else take (nat p) ds @ [46] @ drop (nat p) ds)"

fun float_repr :: "pyfloat \<Rightarrow> pystr" where
  "float_repr NaN = ascii ''nan''"
| "float_repr (Infinity s) = (if s then ascii ''-inf'' else ascii ''inf'')"
| "float_repr (Finite s m) =
     (if s then [45] else []) @
     (if m = 0 then ascii ''0.0''
      else let de = strip_zeros (shortest_digits 16 \<bar>m\<bar> (decimal_exponent \<bar>m\<bar>) 1);
               ds = digits_of (fst de)
           in repr_layout ds (int (length ds) + snd de))"

text \<open>The format specification \<^verbatim>\<open>.2f\<close>: two decimals, rounded exactly, ties to even.\<close>

fun format_2f :: "pyfloat \<Rightarrow> pystr" where
  "format_2f NaN = ascii ''nan''"
| "format_2f (Infinity s) = (if s then ascii ''-inf'' else ascii ''inf'')"
| "format_2f (Finite s m) =
     (let c = rne (\<bar>m\<bar> * 100)
      in (if s then [45] else []) @ digits_of (c div 100) @ [46]
         @ [48 + c mod 100 div 10, 48 + c mod 10])"

subsection \<open>Text as floats\<close>

text \<open>
  \<^verbatim>\<open>float(s)\<close> on a string. Code points outside ASCII are first mapped: white space to
  a blank, a decimal digit of any script to its ASCII digit, anything else to \<^verbatim>\<open>?\<close>,
  where the conversion gives up. The tables are those of Unicode 14: the white space
  code points, and the code point of the digit zero of every script, each followed by
  its digits one to nine.
\<close>

definition unicode_space :: "int \<Rightarrow> bool" where
  "unicode_space c = (c \<in> set [133, 160, 5760, 8232, 8233, 8239, 8287, 12288]
     \<or> (8192 \<le> c \<and> c \<le> 8202))"

definition unicode_zeros :: "int list" where
  "unicode_zeros =
    [1632, 1776, 1984, 2406, 2534, 2662, 2790, 2918, 3046, 3174, 3302, 3430, 3558, 3664,
     3792, 3872, 4160, 4240, 6112, 6160, 6470, 6608, 6784, 6800, 6992, 7088, 7232, 7248,
     42528, 43216, 43264, 43472, 43504, 43600, 44016, 65296, 66720, 68912, 69734, 69872,
     69942, 70096, 70384, 70736, 70864, 71248, 71360, 71472, 71904, 72016, 72784, 73040,
     73120, 92768, 92864, 93008, 120782, 120792, 120802, 120812, 120822, 123200, 123632,
     125264, 130032]"

definition unicode_digit :: "int \<Rightarrow> int option" where
  "unicode_digit c = (case filter (\<lambda>z. z \<le> c \<and> c < z + 10) unicode_zeros of
      [] \<Rightarrow> None | z # _ \<Rightarrow> Some (c - z))"

fun transform_decimal_and_space :: "pystr \<Rightarrow> pystr" where
  "transform_decimal_and_space [] = []"
| "transform_decimal_and_space (c # cs) =
     (if c < 127 then c # transform_decimal_and_space cs
      else if unicode_space c then 32 # transform_decimal_and_space cs
      else case unicode_digit c of
             Some d \<Rightarrow> (48 + d) # transform_decimal_and_space cs
           | None \<Rightarrow> [63])"

definition to_ascii :: "pystr \<Rightarrow> pystr" where
  "to_ascii s = (if list_all (\<lambda>c. c < 128) s then s else transform_decimal_and_space s)"

definition is_space :: "int \<Rightarrow> bool" where
  "is_space c = (c = 32 \<or> (9 \<le> c \<and> c \<le> 13))"

definition is_digit :: "int \<Rightarrow> bool" where
  "is_digit c = (48 \<le> c \<and> c \<le> 57)"

definition strip_spaces :: "pystr \<Rightarrow> pystr" where
  "strip_spaces s = rev (dropWhile is_space (rev (dropWhile is_space s)))"

text \<open>
  Underscores may group digits: each must stand between two digits. \<open>prev\<close> is the
  code point before, \<open>0\<close> at the start.
\<close>

fun underscores_ok :: "int \<Rightarrow> pystr \<Rightarrow> bool" where
  "underscores_ok prev [] = (prev \<noteq> 95)"
| "underscores_ok prev (c # cs) =
     ((if c = 95 then is_digit prev else prev = 95 \<longrightarrow> is_digit c)
      \<and> underscores_ok c cs)"

definition to_lower :: "int \<Rightarrow> int" where
  "to_lower c = (if 65 \<le> c \<and> c \<le> 90 then c + 32 else c)"

definition decimal_value :: "pystr \<Rightarrow> int" where
  "decimal_value ds = foldl (\<lambda>a c. 10 * a + (c - 48)) 0 ds"

definition split_sign :: "pystr \<Rightarrow> bool \<times> pystr" where
  "split_sign s = (case s of
      [] \<Rightarrow> (False, [])
    | c # r \<Rightarrow> if c = 45 then (True, r) else if c = 43 then (False, r) else (False, s))"

text \<open>
  The exponent part: nothing, or \<^verbatim>\<open>e\<close> or \<^verbatim>\<open>E\<close>, an optional sign and at least one
  digit, up to the end of the text.
\<close>

definition parse_exponent :: "pystr \<Rightarrow> int option" where
  "parse_exponent s = (case s of
      [] \<Rightarrow> Some 0
    | c # r \<Rightarrow>
        if c = 101 \<or> c = 69 then
          (let (neg, ds) = split_sign r
           in if ds \<noteq> [] \<and> list_all is_digit ds
              then Some (if neg then - decimal_value ds else decimal_value ds)
              else None)
        else None)"

text \<open>
  An unsigned decimal: digits, an optional point and more digits, at least one digit in
  all, then the exponent part. The result is the exact value.
\<close>

definition parse_decimal :: "pystr \<Rightarrow> rat option" where
  "parse_decimal s =
     (let ip = takeWhile is_digit s;
          r1 = dropWhile is_digit s;
          fp = (case r1 of c # r \<Rightarrow> if c = 46 then takeWhile is_digit r else [] | [] \<Rightarrow> []);
          r2 = (case r1 of c # r \<Rightarrow> if c = 46 then dropWhile is_digit r else r1 | [] \<Rightarrow> [])
      in if ip = [] \<and> fp = [] then None
         else case parse_exponent r2 of
                None \<Rightarrow> None
              | Some e \<Rightarrow>
                  Some (of_int (decimal_value (ip @ fp)) * pow10 (e - int (length fp))))"

datatype raised = ValueError | TypeError | OverflowError | ZeroDivisionError | ProviderError pystr

definition float_of_str :: "pystr \<Rightarrow> raised + pyfloat" where
  "float_of_str s0 =
     (let s1 = strip_spaces (to_ascii s0)
      in if s1 = [] \<or> \<not> underscores_ok 0 s1 then Inl ValueError
         else let (neg, body) = split_sign (remove_char 95 s1);
                  word = map to_lower body
              in if word = ascii ''inf'' \<or> word = ascii ''infinity'' then Inr (Infinity neg)
                 else if word = ascii ''nan'' then Inr NaN
                 else case parse_decimal body of
                        None \<Rightarrow> Inl ValueError
                      | Some q \<Rightarrow> Inr (round_to_double neg q))"

subsection \<open>Dynamically typed values\<close>

text \<open>
  The values the provider hands out: the scalars of its JSON metadata and of its quote
  objects.
\<close>

datatype pyval = VNone | VBool bool | VInt int | VFloat pyfloat | VStr pystr

text \<open>Truth value, as \<^verbatim>\<open>if v\<close> and \<^verbatim>\<open>or\<close> test it: a NaN is true, both zeros are false.\<close>

fun truthy :: "pyval \<Rightarrow> bool" where
  "truthy VNone = False"
| "truthy (VBool b) = b"
| "truthy (VInt i) = (i \<noteq> 0)"
| "truthy (VFloat x) = (\<not> is_zero x)"
| "truthy (VStr s) = (s \<noteq> [])"

definition py_or :: "pyval \<Rightarrow> pyval \<Rightarrow> pyval" where
  "py_or a b = (if truthy a then a else b)"

text \<open>\<^verbatim>\<open>pd.isna\<close> on a scalar.\<close>

fun pd_isna :: "pyval \<Rightarrow> bool" where
  "pd_isna VNone = True"
| "pd_isna (VFloat x) = is_nan x"
| "pd_isna _ = False"

text \<open>
  \<^verbatim>\<open>float(v)\<close>: an integer is rounded to the nearest float and raises when it is beyond
  the range of the floats.
\<close>

fun py_float :: "pyval \<Rightarrow> raised + pyfloat" where
  "py_float VNone = Inl TypeError"
| "py_float (VBool b) = Inr (fconst (if b then 1 else 0))"
| "py_float (VInt i) =
     (case round_to_double (i < 0) (of_int \<bar>i\<bar>) of
        Infinity s \<Rightarrow> Inl OverflowError
      | x \<Rightarrow> Inr x)"
| "py_float (VFloat x) = Inr x"
| "py_float (VStr s) = float_of_str s"

fun py_str :: "pyval \<Rightarrow> pystr" where
  "py_str VNone = ascii ''None''"
| "py_str (VBool b) = (if b then ascii ''True'' else ascii ''False'')"
| "py_str (VInt i) = (if i < 0 then [45] else []) @ digits_of \<bar>i\<bar>"
| "py_str (VFloat x) = float_repr x"
| "py_str (VStr s) = s"

text \<open>Float division raises on a zero divisor, before anything else is looked at.\<close>

definition py_truediv :: "pyfloat \<Rightarrow> pyfloat \<Rightarrow> raised + pyfloat" where
  "py_truediv x y = (if is_zero y then Inl ZeroDivisionError else Inr (fdiv x y))"

text \<open>A dictionary with string keys; \<^verbatim>\<open>d.get(k)\<close> is \<^verbatim>\<open>None\<close> for a missing key.\<close>

type_synonym pydict = "(pystr \<times> pyval) list"

definition dict_get :: "pydict \<Rightarrow> string \<Rightarrow> pyval" where
  "dict_get d k = (case map_of d (ascii k) of None \<Rightarrow> VNone | Some v \<Rightarrow> v)"

section \<open>The quote provider\<close>

text \<open>
  \<^verbatim>\<open>yf.Ticker(ticker)\<close> either raises or returns a quote object. Every later access
  to that object is a call into the provider that may raise on its own, so the object
  is the record of the outcomes of the accesses \<^verbatim>\<open>get_stock_data\<close> makes, one field
  per place of the source:
  \<^item> \<^verbatim>\<open>stock.info\<close> is read at four places (name, price, year high, daily change);
  \<^item> the two \<^verbatim>\<open>fast_info\<close> attributes: \<open>Inr None\<close> when \<^verbatim>\<open>hasattr\<close> finds no
    such attribute, \<open>Inr (Some v)\<close> for the value \<open>v\<close>, \<open>Inl e\<close> when one of the
    accesses of the block raises;
  \<^item> \<^verbatim>\<open>stock.history(period="1d", timeout=10)\<close>: the \<^verbatim>\<open>Close\<close> column of the frame,
    oldest row first, or \<open>None\<close> for a frame without that column. A frame is empty
    when it has no row or no column, so with a \<^verbatim>\<open>Close\<close> column it is empty exactly
    when the column is.
  An exception is an \<open>Exn\<close> with two components: whether it is an instance of
  \<^verbatim>\<open>Exception\<close> (a \<^verbatim>\<open>KeyboardInterrupt\<close> or a \<^verbatim>\<open>SystemExit\<close> is a
  \<^verbatim>\<open>BaseException\<close> only), and its message \<^verbatim>\<open>str(e)\<close>. A bare \<^verbatim>\<open>except:\<close> catches
  both kinds, \<^verbatim>\<open>except Exception\<close> only the first.
\<close>

datatype exn = Exn bool pystr

fun is_Exception :: "exn \<Rightarrow> bool" where
  "is_Exception (Exn c m) = c"

fun str_exn :: "exn \<Rightarrow> pystr" where
  "str_exn (Exn c m) = m"

text \<open>
  Standard output: writing a text either succeeds or raises (an encoding that lacks a
  character, a closed pipe). A \<open>stream\<close> says which, for the next \<^verbatim>\<open>print\<close>.
\<close>

type_synonym stream = "pystr \<Rightarrow> exn option"

record stock =
  info_for_name :: "exn + pydict"
  fast_last_price :: "exn + pyval option"
  history_1d :: "exn + pyfloat list option"
  info_for_price :: "exn + pydict"
  fast_year_high :: "exn + pyval option"
  info_for_high :: "exn + pydict"
  info_for_change :: "exn + pydict"

type_synonym provider = "pystr \<Rightarrow> exn + stock"

section \<open>get\_stock\_data\<close>

record stock_data =
  stock_name :: pystr
  current_price :: "pyfloat option"
  year_high :: "pyfloat option"
  drop_rate :: pystr
  daily_change :: pystr

text \<open>
  \<^verbatim>\<open>try: ... except: pass\<close> around the assignment of one variable: the block gives
  the new value of the variable, and when it raises the variable keeps the old one.
\<close>

definition try_except_pass :: "raised + 'a \<Rightarrow> 'a \<Rightarrow> 'a" where
  "try_except_pass block old = (case block of Inl e \<Rightarrow> old | Inr v \<Rightarrow> v)"

definition access :: "exn + 'a \<Rightarrow> ('a \<Rightarrow> raised + 'b) \<Rightarrow> raised + 'b" where
  "access a f = (case a of Inl e \<Rightarrow> Inl (ProviderError (str_exn e)) | Inr v \<Rightarrow> f v)"

text \<open>\<^verbatim>\<open>if v and not pd.isna(v): x = float(v)\<close>, with \<open>x\<close> unassigned before.\<close>

definition checked_float :: "pyval \<Rightarrow> raised + pyfloat option" where
  "checked_float v =
     (if truthy v \<and> \<not> pd_isna v
      then (case py_float v of Inl e \<Rightarrow> Inl e | Inr x \<Rightarrow> Inr (Some x))
      else Inr None)"

definition name_block :: "stock \<Rightarrow> raised + pystr" where
  "name_block st = access (info_for_name st) (\<lambda>info.
     if info \<noteq> [] then
       (let name = dict_get info ''shortName''
        in if truthy name \<and> \<not> pd_isna name then Inr (py_str name) else Inr (ascii ''N/A''))
     else Inr (ascii ''N/A''))"

definition price_fast_block :: "stock \<Rightarrow> raised + pyfloat option" where
  "price_fast_block st = access (fast_last_price st) (\<lambda>attr.
     case attr of None \<Rightarrow> Inr None | Some price \<Rightarrow> checked_float price)"

definition price_history_block :: "stock \<Rightarrow> raised + pyfloat option" where
  "price_history_block st = access (history_1d st) (\<lambda>hist.
     case hist of
       None \<Rightarrow> Inr None
     | Some closes \<Rightarrow> if closes \<noteq> [] then Inr (Some (last closes)) else Inr None)"

definition price_info_block :: "stock \<Rightarrow> raised + pyfloat option" where
  "price_info_block st = access (info_for_price st) (\<lambda>info.
     if info \<noteq> [] then
       checked_float (py_or (dict_get info ''currentPrice'') (dict_get info ''regularMarketPrice''))
     else Inr None)"

definition high_fast_block :: "stock \<Rightarrow> raised + pyfloat option" where
  "high_fast_block st = access (fast_year_high st) (\<lambda>attr.
     case attr of None \<Rightarrow> Inr None | Some high \<Rightarrow> checked_float high)"

definition high_info_block :: "stock \<Rightarrow> raised + pyfloat option" where
  "high_info_block st = access (info_for_high st) (\<lambda>info.
     if info \<noteq> [] then checked_float (dict_get info ''fiftyTwoWeekHigh'') else Inr None)"

definition drop_block :: "pyfloat \<Rightarrow> pyfloat \<Rightarrow> raised + pystr" where
  "drop_block current high =
     (case py_truediv (fsub high current) high of
        Inl e \<Rightarrow> Inl e
      | Inr q \<Rightarrow>
          (let rate = fmul q (fconst 100)
           in if \<not> is_nan rate
              then Inr (ascii ''-'' @ float_repr (py_round rate 2) @ ascii ''%'')
              else Inr (ascii ''N/A'')))"

definition daily_block :: "stock \<Rightarrow> raised + pystr" where
  "daily_block st = access (info_for_change st) (\<lambda>info.
     if info \<noteq> [] then
       (let change_percent = dict_get info ''regularMarketChangePercent''
        in if change_percent \<noteq> VNone \<and> \<not> pd_isna change_percent
           then (case py_float change_percent of
                   Inl e \<Rightarrow> Inl e
                 | Inr x \<Rightarrow> Inr (float_repr (py_round x 2) @ ascii ''%''))
           else Inr (ascii ''N/A''))
     else Inr (ascii ''N/A''))"

definition select_current_price :: "stock \<Rightarrow> pyfloat option" where
  "select_current_price st =
     (let p1 = try_except_pass (price_fast_block st) None;
          p2 = (if p1 = None then try_except_pass (price_history_block st) p1 else p1)
      in if p2 = None then try_except_pass (price_info_block st) p2 else p2)"

definition select_year_high :: "stock \<Rightarrow> pyfloat option" where
  "select_year_high st =
     (let h1 = try_except_pass (high_fast_block st) None
      in if h1 = None then try_except_pass (high_info_block st) h1 else h1)"

definition compute_drop_rate :: "pyfloat option \<Rightarrow> pyfloat option \<Rightarrow> pystr" where
  "compute_drop_rate cp yh =
     (case (cp, yh) of
        (Some current, Some high) \<Rightarrow>
          if fless (fconst 0) high
          then try_except_pass (drop_block current high) (ascii ''N/A'')
          else ascii ''N/A''
      | _ \<Rightarrow> ascii ''N/A'')"

text \<open>The body of the outer \<^verbatim>\<open>try\<close>: only the construction of the quote object can
  raise out of it, every later block catches what it raises.\<close>

definition get_stock_data_try :: "provider \<Rightarrow> pystr \<Rightarrow> exn + stock_data" where
  "get_stock_data_try yf_Ticker ticker =
     (case yf_Ticker ticker of
        Inl e \<Rightarrow> Inl e
      | Inr st \<Rightarrow>
          (let name = try_except_pass (name_block st) (ascii ''N/A'');
               cp = select_current_price st;
               yh = select_year_high st;
               dr = compute_drop_rate cp yh;
               dc = try_except_pass (daily_block st) (ascii ''N/A'')
           in Inr \<lparr>stock_name = name, current_price = cp, year_high = yh,
                    drop_rate = dr, daily_change = dc\<rparr>))"

definition failure_message :: "pystr \<Rightarrow> exn \<Rightarrow> pystr" where
  "failure_message ticker e =
     ascii ''  '' @ ticker @ [32, 45936, 51060, 53552, 32, 49688, 51665, 32, 49892, 54056, 58, 32]
     @ take 50 (str_exn e) @ ascii ''...''"

definition failed_data :: stock_data where
  "failed_data = \<lparr>stock_name = ascii ''N/A'', current_price = None, year_high = None,
                   drop_rate = ascii ''N/A'', daily_change = ascii ''N/A''\<rparr>"

text \<open>
  The result of a call: the lines it printed, and what it gave back to its caller, an
  exception (\<open>Inl\<close>) or the dictionary (\<open>Inr\<close>). The handler is
  \<^verbatim>\<open>except Exception as e\<close>, so an exception that is no \<^verbatim>\<open>Exception\<close> passes it; and
  the \<^verbatim>\<open>print\<close> in the handler is not protected, so what it raises reaches the caller
  too, with nothing printed and nothing returned.
\<close>

definition get_stock_data ::
  "stream \<Rightarrow> provider \<Rightarrow> pystr \<Rightarrow> pystr list \<times> (exn + stock_data)" where
  "get_stock_data stdout yf_Ticker ticker =
     (case get_stock_data_try yf_Ticker ticker of
        Inr d \<Rightarrow> ([], Inr d)
      | Inl e \<Rightarrow>
          if is_Exception e then
            (case stdout (failure_message ticker e) of
               None \<Rightarrow> ([failure_message ticker e], Inr failed_data)
             | Some print_error \<Rightarrow> ([], Inl print_error))
          else ([], Inl e))"

section \<open>format\_stock\_summary\<close>

definition price_str :: "pyfloat option \<Rightarrow> pystr" where
  "price_str price =
     (case price of Some p \<Rightarrow> ascii ''$'' @ format_2f p | None \<Rightarrow> ascii ''$0'')"

definition high_str :: "pyfloat option \<Rightarrow> pystr" where
  "high_str high =
     (case high of Some h \<Rightarrow> ascii ''$'' @ format_2f h | None \<Rightarrow> ascii ''$0'')"

definition drop_str :: "pystr \<Rightarrow> pystr" where
  "drop_str rate = (if rate \<noteq> ascii ''N/A'' then rate else ascii ''-0.00%'')"

definition daily_str :: "pystr \<Rightarrow> pystr" where
  "daily_str change =
     (if change \<noteq> ascii ''N/A'' then change else ascii ''0.00%'')"

text \<open>The colour codes are escape sequences: the escape character 27 and its argument.\<close>

definition purple :: pystr where "purple = 27 # ascii ''[95m''"
definition blue :: pystr where "blue = 27 # ascii ''[94m''"
definition red :: pystr where "red = 27 # ascii ''[91m''"
definition reset_code :: pystr where "reset_code = 27 # ascii ''[0m''"

definition get_drop_color_code :: "pystr \<Rightarrow> pystr" where
  "get_drop_color_code drop_rate_str =
     (if drop_rate_str = ascii ''N/A'' \<or> drop_rate_str = ascii ''-0.00%'' then []
      else case float_of_str (remove_char 37 (remove_char 45 drop_rate_str)) of
             Inl e \<Rightarrow> []
           | Inr rate_num \<Rightarrow> if fle (fconst 10) rate_num then purple else [])"

definition get_daily_color_code :: "pystr \<Rightarrow> pystr" where
  "get_daily_color_code daily_change_str =
     (if daily_change_str = ascii ''N/A'' \<or> daily_change_str = ascii ''0.00%'' then blue
      else case float_of_str (remove_char 37 daily_change_str) of
             Inl e \<Rightarrow> blue
           | Inr rate_num \<Rightarrow> if fless rate_num (fconst 0) then red else blue)"

definition colored_drop_str :: "pystr \<Rightarrow> pystr" where
  "colored_drop_str ds =
     (let drop_color_code = get_drop_color_code ds
      in if drop_color_code \<noteq> [] then drop_color_code @ ds @ reset_code else ds)"

definition colored_daily_str :: "pystr \<Rightarrow> pystr" where
  "colored_daily_str ds = get_daily_color_code ds @ ds @ reset_code"

text \<open>The labels of the four body lines, up to and including the blank after the colon.\<close>

definition price_label :: pystr where
  "price_label = [54788, 51116, 44032] @ ascii '' : ''"

definition high_label :: pystr where
  "high_label = ascii ''52'' @ [51452, 32, 52572, 44256, 44032] @ ascii '' : ''"

definition drop_label :: pystr where
  "drop_label = [44256, 51216, 45824, 48708, 54616, 46973, 47456] @ ascii '' : ''"

definition daily_label :: pystr where
  "daily_label = [51068, 32, 46321, 46973, 50984] @ ascii '' : ''"

text \<open>The returned template, with the six interpolated texts as arguments.\<close>

definition summary_template ::
  "pystr \<Rightarrow> pystr \<Rightarrow> pystr \<Rightarrow> pystr \<Rightarrow> pystr \<Rightarrow> pystr \<Rightarrow> pystr" where
  "summary_template ticker name price high cdrop cdaily =
     ascii ''=== '' @ ticker @ ascii ''('' @ name @ ascii '') ==='' @ [10]
     @ price_label @ price @ [10]
     @ high_label @ high @ [10]
     @ drop_label @ cdrop @ [10]
     @ daily_label @ cdaily"

definition format_stock_summary :: "stock_data \<Rightarrow> pystr \<Rightarrow> pystr" where
  "format_stock_summary data ticker =
     summary_template ticker (stock_name data)
       (price_str (current_price data)) (high_str (year_high data))
       (colored_drop_str (drop_str (drop_rate data)))
       (colored_daily_str (daily_str (daily_change data)))"

section \<open>main\<close>

definition SECTOR_TICKERS :: "(pystr \<times> pystr list) list" where
  "SECTOR_TICKERS =
    [([127970, 32, 44592, 49696, 51452] @ ascii '' (Technology)'',
      map ascii [''AAPL'', ''MSFT'', ''GOOGL'', ''META'', ''NVDA'', ''ORCL'', ''AVGO'', ''AMD'',
                 ''PLTR'']),
     ([128722, 32, 49548, 48708, 51116, 47, 51204, 51088, 49345, 44144, 47000]
        @ ascii '' (Consumer & E-commerce)'',
      map ascii [''AMZN'', ''TSLA'', ''WMT'', ''WM'']),
     ([128179, 32, 44552, 50997] @ ascii '' (Financial)'',
      map ascii [''V'', ''BRK-B'']),
     ([127959, 65039, 32, 49328, 50629, 47, 51064, 54532, 46972]
        @ ascii '' (Industrial & Infrastructure)'',
      map ascii [''PAVE'', ''GEV'']),
     ([128640, 32, 50864, 51452, 47, 48169, 49328] @ ascii '' (Aerospace & Defense)'',
      map ascii [''RKLB'']),
     ([128176, 32, 48708, 53944, 53076, 51064, 47, 50516, 54840, 54868, 54224]
        @ ascii '' (Cryptocurrency)'',
      map ascii [''BITQ'', ''HOOD'']),
     ([128200] @ ascii '' ETF (Exchange Traded Funds)'',
      map ascii [''QQQM'', ''IGV'', ''XSW'', ''XLF'', ''SCHD'', ''DGRW'', ''XLV'', ''MGK'',
                 ''SPYV''])]"

text \<open>
  What a run does, in order: \<open>Fetch t\<close> is the call \<^verbatim>\<open>get_stock_data(t)\<close>,
  \<open>Print s\<close> one call of \<^verbatim>\<open>print\<close> that wrote \<open>s\<close>, \<open>Sleep d\<close> the call
  \<^verbatim>\<open>time.sleep(d)\<close>. Standard output during a run is a \<open>console\<close>: what the next
  \<^verbatim>\<open>print\<close> does may depend on everything that happened before. Every function of
  \<^verbatim>\<open>main\<close> takes the events so far and gives back the events after it, with its value
  or the exception that left it; \<^verbatim>\<open>main\<close> has no handler, so an exception ends the run.
\<close>

datatype event = Fetch pystr | Print pystr | Sleep pyfloat

type_synonym console = "event list \<Rightarrow> stream"

fun print_all :: "console \<Rightarrow> event list \<Rightarrow> pystr list \<Rightarrow> event list \<times> exn option" where
  "print_all stdout evs [] = (evs, None)"
| "print_all stdout evs (s # ss) =
     (case stdout evs s of
        Some e \<Rightarrow> (evs, Some e)
      | None \<Rightarrow> print_all stdout (evs @ [Print s]) ss)"

text \<open>
  The inner loop over \<^verbatim>\<open>enumerate(tickers)\<close>: \<open>n\<close> is \<^verbatim>\<open>len(tickers)\<close>, \<open>i\<close> the
  index, \<open>count\<close> the running \<^verbatim>\<open>current_ticker_count\<close>, which the loop hands back.
\<close>

fun ticker_loop ::
  "console \<Rightarrow> provider \<Rightarrow> nat \<Rightarrow> nat \<Rightarrow> nat \<Rightarrow> nat \<Rightarrow> event list \<Rightarrow> pystr list
    \<Rightarrow> event list \<times> (exn + nat)" where
  "ticker_loop stdout yf total_tickers n i count evs [] = (evs, Inr count)"
| "ticker_loop stdout yf total_tickers n i count evs (ticker # rest) =
     (case get_stock_data (stdout (evs @ [Fetch ticker])) yf ticker of
        (printed, Inl e) \<Rightarrow> (evs @ Fetch ticker # map Print printed, Inl e)
      | (printed, Inr data) \<Rightarrow>
          (case print_all stdout (evs @ Fetch ticker # map Print printed)
                  (format_stock_summary data ticker
                   # (if int i < int n - 1 then [10 # ascii ''---''] else [])) of
             (evs', Some e) \<Rightarrow> (evs', Inl e)
           | (evs', None) \<Rightarrow>
               ticker_loop stdout yf total_tickers n (i + 1) (count + 1)
                 (evs' @ (if count + 1 < total_tickers then [Sleep (Finite False (1 / 2))]
                          else []))
                 rest))"

fun sector_loop ::
  "console \<Rightarrow> provider \<Rightarrow> nat \<Rightarrow> nat \<Rightarrow> event list \<Rightarrow> (pystr \<times> pystr list) list
    \<Rightarrow> event list \<times> (exn + nat)" where
  "sector_loop stdout yf total_tickers count evs [] = (evs, Inr count)"
| "sector_loop stdout yf total_tickers count evs ((sector_name, tickers) # rest) =
     (case print_all stdout evs
             [10 # replicate 60 61, sector_name, replicate 60 61 @ [10]] of
        (evs1, Some e) \<Rightarrow> (evs1, Inl e)
      | (evs1, None) \<Rightarrow>
          (case ticker_loop stdout yf total_tickers (length tickers) 0 count evs1 tickers of
             (evs2, Inl e) \<Rightarrow> (evs2, Inl e)
           | (evs2, Inr count') \<Rightarrow>
               (case print_all stdout evs2 [[10]] of
                  (evs3, Some e) \<Rightarrow> (evs3, Inl e)
                | (evs3, None) \<Rightarrow> sector_loop stdout yf total_tickers count' evs3 rest)))"

definition start_message :: pystr where
  "start_message = ascii ''Python '' @ [51452, 49885, 32, 54252, 53944, 54260, 47532,
     50724, 32, 48516, 49437, 51012, 32, 49884, 51089, 54633, 45768, 45796]
     @ ascii ''...'' @ [10]"

definition end_message :: pystr where
  "end_message = [47784, 46304, 32, 48516, 49437, 51060, 32, 50756, 47308, 46104, 50632,
     49845, 45768, 45796] @ ascii ''!''"

definition run ::
  "console \<Rightarrow> provider \<Rightarrow> (pystr \<times> pystr list) list \<Rightarrow> event list \<times> exn option" where
  "run stdout yf table =
     (case print_all stdout [] [start_message] of
        (evs, Some e) \<Rightarrow> (evs, Some e)
      | (evs, None) \<Rightarrow>
          (let total_tickers = sum_list (map (\<lambda>(sector_name, tickers). length tickers) table)
           in case sector_loop stdout yf total_tickers 0 evs table of
                (evs', Inl e) \<Rightarrow> (evs', Some e)
              | (evs', Inr count) \<Rightarrow> print_all stdout evs' [end_message]))"

definition main :: "console \<Rightarrow> provider \<Rightarrow> event list \<times> exn option" where
  "main stdout yf = run stdout yf SECTOR_TICKERS"

section \<open>Notions of the specification\<close>

text \<open>
  The drawdown percentage as the specification writes it,
  \<^verbatim>\<open>(yearHigh - currentPrice) / yearHigh * 100\<close>, in float arithmetic.
\<close>

definition drawdown_pct :: "pyfloat \<Rightarrow> pyfloat \<Rightarrow> pyfloat" where
  "drawdown_pct current high = fmul (fdiv (fsub high current) high) (fconst 100)"

text \<open>
  The price the specification selects: the first non-null, non-NaN numeric value among
  the fast-quote last price, the most recent daily close and the metadata price fields,
  in that order; a path that raises offers nothing.
\<close>

fun valid_number :: "pyval \<Rightarrow> bool" where
  "valid_number (VInt i) = True"
| "valid_number (VFloat x) = (\<not> is_nan x)"
| "valid_number _ = False"

definition price_candidates :: "stock \<Rightarrow> pyval list" where
  "price_candidates st =
     (case fast_last_price st of Inr (Some v) \<Rightarrow> [v] | _ \<Rightarrow> [])
     @ (case history_1d st of
          Inr (Some closes) \<Rightarrow> if closes = [] then [] else [VFloat (last closes)]
        | _ \<Rightarrow> [])
     @ (case info_for_price st of
          Inr info \<Rightarrow> [dict_get info ''currentPrice'', dict_get info ''regularMarketPrice'']
        | _ \<Rightarrow> [])"

definition first_valid_number :: "pyval list \<Rightarrow> pyval option" where
  "first_valid_number vs = (case filter valid_number vs of [] \<Rightarrow> None | v # _ \<Rightarrow> Some v)"

text \<open>
  The amended selection. A value counts when it is not null, not zero, not \<^verbatim>\<open>False\<close>,
  not an empty string and not a NaN float, and \<^verbatim>\<open>float\<close> converts it (an integer
  within the range of the floats, a string that reads as a float); it counts as the float
  it converts to. The metadata value is \<^verbatim>\<open>currentPrice\<close> unless that is null, zero,
  \<^verbatim>\<open>False\<close> or empty, and \<^verbatim>\<open>regularMarketPrice\<close> then. \<open>close_regular\<close> says that
  the most recent close, when there is one, is neither zero nor NaN.
\<close>

fun null_or_zero :: "pyval \<Rightarrow> bool" where
  "null_or_zero VNone = True"
| "null_or_zero (VBool b) = (\<not> b)"
| "null_or_zero (VInt i) = (i = 0)"
| "null_or_zero (VFloat x) = is_zero x"
| "null_or_zero (VStr s) = (s = [])"

fun nan_float :: "pyval \<Rightarrow> bool" where
  "nan_float (VFloat x) = is_nan x"
| "nan_float _ = False"

definition usable_value :: "pyval \<Rightarrow> pyfloat option" where
  "usable_value v =
     (if null_or_zero v \<or> nan_float v then None
      else case py_float v of Inr x \<Rightarrow> Some x | Inl e \<Rightarrow> None)"

definition fast_candidate :: "stock \<Rightarrow> pyfloat option" where
  "fast_candidate st = (case fast_last_price st of Inr (Some v) \<Rightarrow> usable_value v | _ \<Rightarrow> None)"

definition close_candidate :: "stock \<Rightarrow> pyfloat option" where
  "close_candidate st =
     (case history_1d st of
        Inr (Some closes) \<Rightarrow> if closes = [] then None else usable_value (VFloat (last closes))
      | _ \<Rightarrow> None)"

definition metadata_candidate :: "stock \<Rightarrow> pyfloat option" where
  "metadata_candidate st =
     (case info_for_price st of
        Inr info \<Rightarrow>
          usable_value (if null_or_zero (dict_get info ''currentPrice'')
                        then dict_get info ''regularMarketPrice''
                        else dict_get info ''currentPrice'')
      | _ \<Rightarrow> None)"

fun first_present :: "'a option list \<Rightarrow> 'a option" where
  "first_present [] = None"
| "first_present (None # xs) = first_present xs"
| "first_present (Some x # xs) = Some x"

definition close_regular :: "stock \<Rightarrow> bool" where
  "close_regular st =
     (case history_1d st of
        Inr (Some closes) \<Rightarrow> closes = [] \<or> (\<not> is_zero (last closes) \<and> \<not> is_nan (last closes))
      | _ \<Rightarrow> True)"

text \<open>A float with the sign bit set that is not a NaN: it prints with a leading minus.\<close>

definition negative :: "pyfloat \<Rightarrow> bool" where
  "negative x = (sign_bit x \<and> \<not> is_nan x)"

text \<open>The lines of a text: what \<^verbatim>\<open>s.split("\n")\<close> gives.\<close>

fun split_lines :: "pystr \<Rightarrow> pystr list" where
  "split_lines [] = [[]]"
| "split_lines (c # cs) =
     (if c = 10 then [] # split_lines cs
      else case split_lines cs of l # ls \<Rightarrow> (c # l) # ls | [] \<Rightarrow> [[c]])"

text \<open>
  The calls a run is observed by, with the printing left out, and the schedule the
  specification asks for: one fetch per ticker, a pause of half a second between two
  consecutive fetches.
\<close>

fun is_print :: "event \<Rightarrow> bool" where
  "is_print (Print s) = True"
| "is_print _ = False"

fun is_fetch :: "event \<Rightarrow> bool" where
  "is_fetch (Fetch t) = True"
| "is_fetch _ = False"

fun is_sleep :: "event \<Rightarrow> bool" where
  "is_sleep (Sleep d) = True"
| "is_sleep _ = False"

definition calls :: "event list \<Rightarrow> event list" where
  "calls evs = filter (\<lambda>e. \<not> is_print e) evs"

definition pause :: event where
  "pause = Sleep (Finite False (1 / 2))"

fun fetches_with_pauses :: "pystr list \<Rightarrow> event list" where
  "fetches_with_pauses [] = []"
| "fetches_with_pauses [t] = [Fetch t]"
| "fetches_with_pauses (t # u # ts) = Fetch t # pause # fetches_with_pauses (u # ts)"

text \<open>The same fetches with a pause after every one of them.\<close>

definition fetches_all_paused :: "pystr list \<Rightarrow> event list" where
  "fetches_all_paused ts = concat (map (\<lambda>t. [Fetch t, pause]) ts)"

definition all_tickers :: "(pystr \<times> pystr list) list \<Rightarrow> pystr list" where
  "all_tickers table = concat (map snd table)"

section \<open>Sample provider answers\<close>

text \<open>A complete answer: price 150, year high 200, change -1.5 percent.\<close>

definition apple_info :: pydict where
  "apple_info = [(ascii ''shortName'', VStr (ascii ''Apple Inc.'')),
                 (ascii ''currentPrice'', VFloat (Finite False 150)),
                 (ascii ''fiftyTwoWeekHigh'', VFloat (Finite False 200)),
                 (ascii ''regularMarketChangePercent'', VFloat (Finite True (3 / 2)))]"

definition apple_stock :: stock where
  "apple_stock = \<lparr>info_for_name = Inr apple_info,
     fast_last_price = Inr (Some (VFloat (Finite False 150))),
     history_1d = Inr (Some [Finite False 149, Finite False 150]),
     info_for_price = Inr apple_info,
     fast_year_high = Inr (Some (VFloat (Finite False 200))),
     info_for_high = Inr apple_info,
     info_for_change = Inr apple_info\<rparr>"

definition apple_provider :: provider where
  "apple_provider ticker = Inr apple_stock"

text \<open>The same quote with the price at 210, above the year high.\<close>

definition above_high_stock :: stock where
  "above_high_stock = apple_stock\<lparr>fast_last_price := Inr (Some (VFloat (Finite False 210)))\<rparr>"

definition above_high_provider :: provider where
  "above_high_provider ticker = Inr above_high_stock"

text \<open>A fast quote without a last price and a history whose latest close is NaN.\<close>

definition nan_close_stock :: stock where
  "nan_close_stock = apple_stock\<lparr>fast_last_price := Inr None,
     history_1d := Inr (Some [Finite False 149, NaN])\<rparr>"

definition nan_close_provider :: provider where
  "nan_close_provider ticker = Inr nan_close_stock"

text \<open>A fast quote whose last price is 0.0, with a latest close of 149.\<close>

definition zero_quote_stock :: stock where
  "zero_quote_stock = apple_stock\<lparr>fast_last_price := Inr (Some (VFloat (Finite False 0))),
     history_1d := Inr (Some [Finite False 149])\<rparr>"

definition zero_quote_provider :: provider where
  "zero_quote_provider ticker = Inr zero_quote_stock"

text \<open>A fast quote that raises and a history without rows: the metadata price is left.\<close>

definition metadata_only_stock :: stock where
  "metadata_only_stock = apple_stock\<lparr>fast_last_price := Inl (Exn True (ascii ''timeout'')),
     history_1d := Inr (Some [])\<rparr>"

definition metadata_only_provider :: provider where
  "metadata_only_provider ticker = Inr metadata_only_stock"

text \<open>A provider whose construction of the quote object raises, with a long message.\<close>

definition long_message :: pystr where
  "long_message = ascii ''HTTPSConnectionPool(host=query2.finance.yahoo.com): Max retries exceeded''"

definition failing_provider :: provider where
  "failing_provider ticker = Inl (Exn True long_message)"

text \<open>A provider whose construction of the quote object is interrupted.\<close>

definition interrupted_provider :: provider where
  "interrupted_provider ticker = Inl (Exn False (ascii ''interrupted''))"

text \<open>A fast quote whose last price is the integer 150, with a latest close of 149.\<close>

definition integer_quote_stock :: stock where
  "integer_quote_stock = apple_stock\<lparr>fast_last_price := Inr (Some (VInt 150)),
     history_1d := Inr (Some [Finite False 149])\<rparr>"

definition integer_quote_provider :: provider where
  "integer_quote_provider ticker = Inr integer_quote_stock"

text \<open>
  Standard output that writes every text, and one whose encoding has the ASCII
  characters only.
\<close>

definition reliable_stdout :: stream where
  "reliable_stdout s = None"

definition reliable_console :: console where
  "reliable_console evs = reliable_stdout"

definition encoding_error :: exn where
  "encoding_error = Exn True (ascii ''ordinal not in range(128)'')"

definition ascii_stdout :: stream where
  "ascii_stdout s = (if list_all (\<lambda>c. c < 128) s then None else Some encoding_error)"

text \<open>A record whose name holds a newline character.\<close>

definition two_line_name_data :: stock_data where
  "two_line_name_data = \<lparr>stock_name = ascii ''A'' @ [10] @ ascii ''B'', current_price = None,
     year_high = None, drop_rate = ascii ''N/A'', daily_change = ascii ''N/A''\<rparr>"

definition small_table :: "(pystr \<times> pystr list) list" where
  "small_table = [(ascii ''S1'', [ascii ''A'', ascii ''B'']), (ascii ''S2'', []),
                  (ascii ''S3'', [ascii ''C''])]"

section \<open>Properties of the float operations\<close>

lemma round_to_double_cases:
  "round_to_double s q = Infinity s \<or> (\<exists>m. round_to_double s q = Finite s m)"
  by (simp add: round_to_double_def Let_def)

lemma sign_bit_round [simp]: "sign_bit (round_to_double s q) = s"
  using round_to_double_cases [of s q] by auto

lemma is_nan_round [simp]: "\<not> is_nan (round_to_double s q)"
  using round_to_double_cases [of s q] by auto

lemma positive_cases:
  assumes "fless (fconst 0) h"
  shows "h = Infinity False \<or> (\<exists>m. h = Finite False m \<and> m \<noteq> 0)"
  using assms by (cases h) (auto simp: fless_def fconst_def sval_def split: if_splits)

lemma positive_not_zero:
  assumes "fless (fconst 0) h"
  shows "\<not> is_zero h"
  using positive_cases [OF assms] by auto

lemma below_finite:
  assumes "fless (fconst 0) h" and "fless h c"
  shows "\<exists>m. h = Finite False m \<and> m \<noteq> 0"
  using positive_cases [OF assms(1)] assms(2)
  by (cases c) (auto simp: fless_def split: if_splits)

lemma fsub_negative:
  assumes "fless (fconst 0) h" and "fless h c"
  shows "negative (fsub h c)"
proof -
  obtain m where h: "h = Finite False m" "m \<noteq> 0"
    using below_finite [OF assms] by blast
  with assms(2) show ?thesis
    by (cases c) (auto simp: fless_def fsub_def sval_def negative_def Let_def split: if_splits)
qed

lemma fdiv_negative:
  assumes "negative x" and "h = Finite False m" and "m \<noteq> 0"
  shows "negative (fdiv x h)"
  using assms by (cases x) (auto simp: negative_def)

lemma fmul_negative:
  assumes "negative x"
  shows "negative (fmul x (fconst 100))"
  using assms by (cases x) (auto simp: negative_def fconst_def)

lemma py_round_negative:
  assumes "negative x"
  shows "negative (py_round x n)"
  using assms by (cases x) (auto simp: negative_def)

lemma float_repr_negative:
  assumes "negative x"
  shows "\<exists>r. float_repr x = 45 # r"
  using assms by (cases x) (auto simp: negative_def ascii_def)

lemma drawdown_negative:
  assumes "fless (fconst 0) h" and "fless h c"
  shows "negative (drawdown_pct c h)"
proof -
  obtain m where h: "h = Finite False m" "m \<noteq> 0"
    using below_finite [OF assms] by blast
  have "negative (fdiv (fsub h c) h)"
    using fsub_negative [OF assms] h by (rule fdiv_negative)
  then show ?thesis
    unfolding drawdown_pct_def by (rule fmul_negative)
qed

section \<open>The shape of a fetch\<close>

lemma get_stock_data_failure:
  assumes "yf ticker = Inl e" and "is_Exception e" and "out (failure_message ticker e) = None"
  shows "get_stock_data out yf ticker = ([failure_message ticker e], Inr failed_data)"
  using assms by (simp add: get_stock_data_def get_stock_data_try_def)

lemma get_stock_data_print_raises:
  assumes "yf ticker = Inl e" and "is_Exception e"
    and "out (failure_message ticker e) = Some pe"
  shows "get_stock_data out yf ticker = ([], Inl pe)"
  using assms by (simp add: get_stock_data_def get_stock_data_try_def)

lemma get_stock_data_passes:
  assumes "yf ticker = Inl e" and "\<not> is_Exception e"
  shows "get_stock_data out yf ticker = ([], Inl e)"
  using assms by (simp add: get_stock_data_def get_stock_data_try_def)

lemma get_stock_data_success:
  assumes "yf ticker = Inr st"
  shows "get_stock_data out yf ticker =
    ([], Inr \<lparr>stock_name = try_except_pass (name_block st) (ascii ''N/A''),
              current_price = select_current_price st,
              year_high = select_year_high st,
              drop_rate = compute_drop_rate (select_current_price st) (select_year_high st),
              daily_change = try_except_pass (daily_block st) (ascii ''N/A'')\<rparr>)"
  using assms by (simp add: get_stock_data_def get_stock_data_try_def Let_def)

lemma get_stock_data_returned:
  assumes "get_stock_data out yf ticker = (printed, Inr d)"
  shows "(\<exists>st. yf ticker = Inr st \<and> printed = []
            \<and> d = \<lparr>stock_name = try_except_pass (name_block st) (ascii ''N/A''),
                    current_price = select_current_price st,
                    year_high = select_year_high st,
                    drop_rate = compute_drop_rate (select_current_price st) (select_year_high st),
                    daily_change = try_except_pass (daily_block st) (ascii ''N/A'')\<rparr>)
       \<or> (\<exists>e. yf ticker = Inl e \<and> is_Exception e \<and> out (failure_message ticker e) = None
              \<and> printed = [failure_message ticker e] \<and> d = failed_data)"
proof (cases "yf ticker")
  case (Inr st)
  with assms show ?thesis
    by (auto simp: get_stock_data_success)
next
  case (Inl e)
  with assms show ?thesis
    by (auto simp: get_stock_data_def get_stock_data_try_def split: if_splits option.splits)
qed

lemma get_stock_data_returns:
  assumes "\<And>e. yf ticker = Inl e \<Longrightarrow> is_Exception e \<and> out (failure_message ticker e) = None"
  shows "\<exists>printed d. get_stock_data out yf ticker = (printed, Inr d)"
proof (cases "yf ticker")
  case (Inl e)
  with assms [OF Inl] show ?thesis by (simp add: get_stock_data_failure)
next
  case (Inr st)
  then show ?thesis by (simp add: get_stock_data_success)
qed

lemma compute_drop_rate_absent [simp]: "compute_drop_rate None None = ascii ''N/A''"
  by (simp add: compute_drop_rate_def)

lemma drop_rate_of_result:
  assumes "get_stock_data out yf ticker = (printed, Inr d)"
  shows "drop_rate d = compute_drop_rate (current_price d) (year_high d)"
  using get_stock_data_returned [OF assms] by (auto simp: failed_data_def)

lemma compute_drop_rate_spec:
  "compute_drop_rate cp yh =
     (case (cp, yh) of
        (Some c, Some h) \<Rightarrow>
          if fless (fconst 0) h \<and> \<not> is_nan (drawdown_pct c h)
          then ascii ''-'' @ float_repr (py_round (drawdown_pct c h) 2) @ ascii ''%''
          else ascii ''N/A''
      | _ \<Rightarrow> ascii ''N/A'')"
  by (auto simp: compute_drop_rate_def drop_block_def py_truediv_def try_except_pass_def
      drawdown_pct_def Let_def positive_not_zero split: option.splits)

section \<open>The sample answers evaluated\<close>

lemma apple_name: "name_block apple_stock = Inr (ascii ''Apple Inc.'')"
  by code_simp

lemma apple_price: "select_current_price apple_stock = Some (Finite False 150)"
  by code_simp

lemma apple_high: "select_year_high apple_stock = Some (Finite False 200)"
  by code_simp

lemma apple_daily: "daily_block apple_stock = Inr (ascii ''-1.5%'')"
  by code_simp

lemma drop_150_200:
  "compute_drop_rate (Some (Finite False 150)) (Some (Finite False 200)) = ascii ''-25.0%''"
  by code_simp

lemma apple_result:
  "get_stock_data out apple_provider ticker =
     ([], Inr \<lparr>stock_name = ascii ''Apple Inc.'', current_price = Some (Finite False 150),
               year_high = Some (Finite False 200), drop_rate = ascii ''-25.0%'',
               daily_change = ascii ''-1.5%''\<rparr>)"
  by (simp add: get_stock_data_success [of apple_provider ticker apple_stock]
      apple_provider_def apple_name apple_price apple_high apple_daily drop_150_200
      try_except_pass_def)

lemma above_high_name: "name_block above_high_stock = Inr (ascii ''Apple Inc.'')"
  by code_simp

lemma above_high_price: "select_current_price above_high_stock = Some (Finite False 210)"
  by code_simp

lemma above_high_high: "select_year_high above_high_stock = Some (Finite False 200)"
  by code_simp

lemma above_high_daily: "daily_block above_high_stock = Inr (ascii ''-1.5%'')"
  by code_simp

lemma drop_210_200:
  "compute_drop_rate (Some (Finite False 210)) (Some (Finite False 200)) = ascii ''--5.0%''"
  by code_simp

lemma above_high_result:
  "get_stock_data out above_high_provider ticker =
     ([], Inr \<lparr>stock_name = ascii ''Apple Inc.'', current_price = Some (Finite False 210),
               year_high = Some (Finite False 200), drop_rate = ascii ''--5.0%'',
               daily_change = ascii ''-1.5%''\<rparr>)"
  by (simp add: get_stock_data_success [of above_high_provider ticker above_high_stock]
      above_high_provider_def above_high_name above_high_price above_high_high
      above_high_daily drop_210_200 try_except_pass_def)

lemma nan_close_name: "name_block nan_close_stock = Inr (ascii ''Apple Inc.'')"
  by code_simp

lemma nan_close_price: "select_current_price nan_close_stock = Some NaN"
  by code_simp

lemma nan_close_high: "select_year_high nan_close_stock = Some (Finite False 200)"
  by code_simp

lemma nan_close_daily: "daily_block nan_close_stock = Inr (ascii ''-1.5%'')"
  by code_simp

lemma drop_nan_200: "compute_drop_rate (Some NaN) (Some (Finite False 200)) = ascii ''N/A''"
  by code_simp

lemma nan_close_result:
  "get_stock_data out nan_close_provider ticker =
     ([], Inr \<lparr>stock_name = ascii ''Apple Inc.'', current_price = Some NaN,
               year_high = Some (Finite False 200), drop_rate = ascii ''N/A'',
               daily_change = ascii ''-1.5%''\<rparr>)"
  by (simp add: get_stock_data_success [of nan_close_provider ticker nan_close_stock]
      nan_close_provider_def nan_close_name nan_close_price nan_close_high
      nan_close_daily drop_nan_200 try_except_pass_def)

lemma positive_200: "fless (fconst 0) (Finite False 200)"
  by code_simp

lemma above_200: "fless (Finite False 200) (Finite False 210)"
  by code_simp

lemma drawdown_150_200: "drawdown_pct (Finite False 150) (Finite False 200) = Finite False 25"
  by code_simp

lemma drawdown_210_200: "drawdown_pct (Finite False 210) (Finite False 200) = Finite True 5"
  by code_simp

lemma drawdown_nan_200: "drawdown_pct NaN (Finite False 200) = NaN"
  by code_simp

lemma repr_round_25: "float_repr (py_round (Finite False 25) 2) = ascii ''25.0''"
  by code_simp

lemma repr_round_minus_5: "float_repr (py_round (Finite True 5) 2) = ascii ''-5.0''"
  by code_simp

lemma repr_round_nan: "float_repr (py_round NaN 2) = ascii ''nan''"
  by code_simp

section \<open>The drawdown field\<close>

text \<open>
  Claim C1, as amended. For every fetch result: when the current price and the year high
  are both present, the year high is strictly positive and the drawdown percentage
  \<^verbatim>\<open>(yearHigh - currentPrice) / yearHigh * 100\<close> is not NaN, the drawdown field is that
  percentage rounded to two decimals and rendered as \<^verbatim>\<open>"-{value}%"\<close>; in every other
  case (a field absent, a year high that is not strictly positive, a percentage that is
  NaN) the field is \<^verbatim>\<open>"N/A"\<close>.
\<close>

theorem drawdown_field:
  assumes "get_stock_data out yf ticker = (printed, Inr d)"
  shows "drop_rate d =
     (case (current_price d, year_high d) of
        (Some c, Some h) \<Rightarrow>
          if fless (fconst 0) h \<and> \<not> is_nan (drawdown_pct c h)
          then ascii ''-'' @ float_repr (py_round (drawdown_pct c h) 2) @ ascii ''%''
          else ascii ''N/A''
      | _ \<Rightarrow> ascii ''N/A'')"
  using drop_rate_of_result [OF assms] by (simp only: compute_drop_rate_spec)

text \<open>The complete answer: price 150 under a year high of 200 gives \<^verbatim>\<open>"-25.0%"\<close>.\<close>

theorem drawdown_field_witness:
  "get_stock_data reliable_stdout apple_provider (ascii ''AAPL'') =
     ([], Inr \<lparr>stock_name = ascii ''Apple Inc.'', current_price = Some (Finite False 150),
               year_high = Some (Finite False 200), drop_rate = ascii ''-25.0%'',
               daily_change = ascii ''-1.5%''\<rparr>)
   \<and> fless (fconst 0) (Finite False 200)
   \<and> \<not> is_nan (drawdown_pct (Finite False 150) (Finite False 200))
   \<and> ascii ''-25.0%''
       = ascii ''-'' @ float_repr (py_round (drawdown_pct (Finite False 150) (Finite False 200)) 2)
         @ ascii ''%''"
  using drawdown_field [OF apple_result [of reliable_stdout "ascii ''AAPL''"]]
  by (simp add: apple_result positive_200 drawdown_150_200)

text \<open>
  Claim C1 as it is stated fails. The history path takes the latest close without looking
  at it, so a latest close that is NaN becomes the current price: both fields are
  present, the year high is positive, and the drawdown field is \<^verbatim>\<open>"N/A"\<close>, not the
  rounded percentage rendered as \<^verbatim>\<open>"-nan%"\<close>.
\<close>

theorem drawdown_field_nan_counterexample:
  "get_stock_data reliable_stdout nan_close_provider (ascii ''AAPL'') =
     ([], Inr \<lparr>stock_name = ascii ''Apple Inc.'', current_price = Some NaN,
               year_high = Some (Finite False 200), drop_rate = ascii ''N/A'',
               daily_change = ascii ''-1.5%''\<rparr>)
   \<and> fless (fconst 0) (Finite False 200)
   \<and> ascii ''N/A''
       \<noteq> ascii ''-'' @ float_repr (py_round (drawdown_pct NaN (Finite False 200)) 2) @ ascii ''%''"
  by (simp add: nan_close_result positive_200 drawdown_nan_200 repr_round_nan ascii_def)

text \<open>
  Claim C9. For every fetch result with a year high above zero and a current price that is
  present and strictly above the year high, the drawdown field is the literal \<^verbatim>\<open>-\<close>,
  the rounded percentage and \<^verbatim>\<open>%\<close>; the rounded percentage carries a minus sign of
  its own (it is negative, or the negative zero when it rounds to zero) and is not NaN,
  so the field begins with \<^verbatim>\<open>--\<close>.
\<close>

theorem price_above_high_double_minus:
  assumes "get_stock_data out yf ticker = (printed, Inr d)"
    and "year_high d = Some h" and "current_price d = Some c"
    and "fless (fconst 0) h" and "fless h c"
  shows "drop_rate d = ascii ''-'' @ float_repr (py_round (drawdown_pct c h) 2) @ ascii ''%''
    \<and> sign_bit (py_round (drawdown_pct c h) 2)
    \<and> \<not> is_nan (py_round (drawdown_pct c h) 2)
    \<and> take 2 (drop_rate d) = ascii ''--''"
proof -
  have neg: "negative (drawdown_pct c h)"
    using assms(4,5) by (rule drawdown_negative)
  then have rounded: "negative (py_round (drawdown_pct c h) 2)"
    by (rule py_round_negative)
  from neg have "\<not> is_nan (drawdown_pct c h)"
    by (simp add: negative_def)
  with assms have field:
    "drop_rate d = ascii ''-'' @ float_repr (py_round (drawdown_pct c h) 2) @ ascii ''%''"
    by (simp add: drop_rate_of_result [OF assms(1)] compute_drop_rate_spec)
  obtain r where "float_repr (py_round (drawdown_pct c h) 2) = 45 # r"
    using float_repr_negative [OF rounded] by blast
  with field have "take 2 (drop_rate d) = ascii ''--''"
    by (simp add: ascii_def)
  with field rounded show ?thesis
    by (simp add: negative_def)
qed

text \<open>Price 210 above a year high of 200: the field is \<^verbatim>\<open>"--5.0%"\<close>.\<close>

theorem price_above_high_double_minus_witness:
  "get_stock_data reliable_stdout above_high_provider (ascii ''AAPL'') =
     ([], Inr \<lparr>stock_name = ascii ''Apple Inc.'', current_price = Some (Finite False 210),
               year_high = Some (Finite False 200), drop_rate = ascii ''--5.0%'',
               daily_change = ascii ''-1.5%''\<rparr>)
   \<and> fless (fconst 0) (Finite False 200) \<and> fless (Finite False 200) (Finite False 210)
   \<and> sign_bit (py_round (drawdown_pct (Finite False 210) (Finite False 200)) 2)
   \<and> take 2 (ascii ''--5.0%'') = ascii ''--''"
proof -
  have r: "get_stock_data reliable_stdout above_high_provider (ascii ''AAPL'') =
     ([], Inr \<lparr>stock_name = ascii ''Apple Inc.'', current_price = Some (Finite False 210),
               year_high = Some (Finite False 200), drop_rate = ascii ''--5.0%'',
               daily_change = ascii ''-1.5%''\<rparr>)"
    by (rule above_high_result)
  let ?d = "\<lparr>stock_name = ascii ''Apple Inc.'', current_price = Some (Finite False 210),
               year_high = Some (Finite False 200), drop_rate = ascii ''--5.0%'',
               daily_change = ascii ''-1.5%''\<rparr>"
  have yh: "year_high ?d = Some (Finite False 200)" by simp
  have cp: "current_price ?d = Some (Finite False 210)" by simp
  have dr: "drop_rate ?d = ascii ''--5.0%''" by simp
  have "sign_bit (py_round (drawdown_pct (Finite False 210) (Finite False 200)) 2)
      \<and> take 2 (ascii ''--5.0%'') = ascii ''--''"
    using price_above_high_double_minus [OF r yh cp positive_200 above_200]
    unfolding dr by blast
  with r positive_200 above_200 show ?thesis
    by blast
qed

section \<open>Failures of the provider\<close>

text \<open>
  Claim C2, as amended. For every ticker and every provider \<^verbatim>\<open>get_stock_data\<close> gives a
  dictionary back and raises nothing, except in two cases: the construction of the quote
  object raises an exception that is no instance of \<^verbatim>\<open>Exception\<close>, or it raises an
  \<^verbatim>\<open>Exception\<close> and the \<^verbatim>\<open>print\<close> of the diagnostic line raises; then that exception
  reaches the caller. When the construction raises an \<^verbatim>\<open>Exception\<close> and the line is
  printed, every field of the dictionary is absent or \<^verbatim>\<open>"N/A"\<close>, exactly that one line
  is printed, which holds the ticker and the first 50 characters of the message, and the
  loop over the tickers, once it has printed the summary of that dictionary, goes on
  with the next ticker. When the construction returns, a dictionary is given back and
  nothing is printed.
\<close>

theorem get_stock_data_outcomes:
  "(\<forall>st. yf ticker = Inr st \<longrightarrow> (\<exists>d. get_stock_data out yf ticker = ([], Inr d)))
   \<and> (\<forall>e. yf ticker = Inl e \<and> is_Exception e \<and> out (failure_message ticker e) = None \<longrightarrow>
         get_stock_data out yf ticker =
           ([failure_message ticker e],
            Inr \<lparr>stock_name = ascii ''N/A'', current_price = None, year_high = None,
                  drop_rate = ascii ''N/A'', daily_change = ascii ''N/A''\<rparr>)
         \<and> failure_message ticker e =
             ascii ''  '' @ ticker
             @ [32, 45936, 51060, 53552, 32, 49688, 51665, 32, 49892, 54056, 58, 32]
             @ take 50 (str_exn e) @ ascii ''...'')
   \<and> (\<forall>e. yf ticker = Inl e \<and> \<not> is_Exception e \<longrightarrow>
         get_stock_data out yf ticker = ([], Inl e))
   \<and> (\<forall>e pe. yf ticker = Inl e \<and> is_Exception e
          \<and> out (failure_message ticker e) = Some pe \<longrightarrow>
         get_stock_data out yf ticker = ([], Inl pe))
   \<and> ((\<exists>x. snd (get_stock_data out yf ticker) = Inl x) \<longleftrightarrow>
        (\<exists>e. yf ticker = Inl e
           \<and> (\<not> is_Exception e \<or> out (failure_message ticker e) \<noteq> None)))
   \<and> (\<forall>e evs'. yf ticker = Inl e \<and> is_Exception e
          \<and> con (evs @ [Fetch ticker]) (failure_message ticker e) = None
          \<and> print_all con (evs @ [Fetch ticker, Print (failure_message ticker e)])
               (format_stock_summary failed_data ticker
                # (if int i < int n - 1 then [10 # ascii ''---''] else [])) = (evs', None) \<longrightarrow>
         ticker_loop con yf tot n i count evs (ticker # rest) =
           ticker_loop con yf tot n (i + 1) (count + 1)
             (evs' @ (if count + 1 < tot then [Sleep (Finite False (1 / 2))] else [])) rest)"
proof (intro conjI allI impI)
  fix st
  assume "yf ticker = Inr st"
  then show "\<exists>d. get_stock_data out yf ticker = ([], Inr d)"
    by (simp add: get_stock_data_success)
next
  fix e
  assume "yf ticker = Inl e \<and> is_Exception e \<and> out (failure_message ticker e) = None"
  then show "get_stock_data out yf ticker =
           ([failure_message ticker e],
            Inr \<lparr>stock_name = ascii ''N/A'', current_price = None, year_high = None,
                  drop_rate = ascii ''N/A'', daily_change = ascii ''N/A''\<rparr>)"
    by (simp add: get_stock_data_failure failed_data_def)
next
  fix e
  show "failure_message ticker e =
             ascii ''  '' @ ticker
             @ [32, 45936, 51060, 53552, 32, 49688, 51665, 32, 49892, 54056, 58, 32]
             @ take 50 (str_exn e) @ ascii ''...''"
    by (simp add: failure_message_def)
next
  fix e
  assume "yf ticker = Inl e \<and> \<not> is_Exception e"
  then show "get_stock_data out yf ticker = ([], Inl e)"
    by (simp add: get_stock_data_passes)
next
  fix e pe
  assume "yf ticker = Inl e \<and> is_Exception e \<and> out (failure_message ticker e) = Some pe"
  then show "get_stock_data out yf ticker = ([], Inl pe)"
    by (simp add: get_stock_data_print_raises)
next
  show "(\<exists>x. snd (get_stock_data out yf ticker) = Inl x) \<longleftrightarrow>
        (\<exists>e. yf ticker = Inl e
           \<and> (\<not> is_Exception e \<or> out (failure_message ticker e) \<noteq> None))"
  proof (cases "yf ticker")
    case (Inr st)
    then show ?thesis
      by (simp add: get_stock_data_success)
  next
    case (Inl e)
    then show ?thesis
      by (cases "is_Exception e"; cases "out (failure_message ticker e)")
        (simp_all add: get_stock_data_failure get_stock_data_passes
          get_stock_data_print_raises)
  qed
next
  fix e evs'
  assume h: "yf ticker = Inl e \<and> is_Exception e
          \<and> con (evs @ [Fetch ticker]) (failure_message ticker e) = None
          \<and> print_all con (evs @ [Fetch ticker, Print (failure_message ticker e)])
               (format_stock_summary failed_data ticker
                # (if int i < int n - 1 then [10 # ascii ''---''] else [])) = (evs', None)"
  then have "get_stock_data (con (evs @ [Fetch ticker])) yf ticker
      = ([failure_message ticker e], Inr failed_data)"
    by (simp add: get_stock_data_failure)
  with h show "ticker_loop con yf tot n i count evs (ticker # rest) =
           ticker_loop con yf tot n (i + 1) (count + 1)
             (evs' @ (if count + 1 < tot then [Sleep (Finite False (1 / 2))] else [])) rest"
    by (simp del: print_all.simps)
qed

lemma take_50_long_message:
  "take 50 long_message = ascii ''HTTPSConnectionPool(host=query2.finance.yahoo.com)''"
  by code_simp

text \<open>A message of 72 characters is cut after its 50th.\<close>

theorem get_stock_data_outcomes_witness:
  "failing_provider (ascii ''AAPL'') = Inl (Exn True long_message)
   \<and> is_Exception (Exn True long_message)
   \<and> reliable_stdout (failure_message (ascii ''AAPL'') (Exn True long_message)) = None
   \<and> get_stock_data reliable_stdout failing_provider (ascii ''AAPL'') =
       ([ascii ''  '' @ ascii ''AAPL''
           @ [32, 45936, 51060, 53552, 32, 49688, 51665, 32, 49892, 54056, 58, 32]
           @ ascii ''HTTPSConnectionPool(host=query2.finance.yahoo.com)'' @ ascii ''...''],
        Inr \<lparr>stock_name = ascii ''N/A'', current_price = None, year_high = None,
              drop_rate = ascii ''N/A'', daily_change = ascii ''N/A''\<rparr>)"
proof -
  have p: "failing_provider (ascii ''AAPL'') = Inl (Exn True long_message)"
    by (simp add: failing_provider_def)
  have q: "reliable_stdout (failure_message (ascii ''AAPL'') (Exn True long_message)) = None"
    by (simp add: reliable_stdout_def)
  from get_stock_data_outcomes [of failing_provider "ascii ''AAPL''" reliable_stdout,
      THEN conjunct2, THEN conjunct1, rule_format, of "Exn True long_message"] p q
  have "get_stock_data reliable_stdout failing_provider (ascii ''AAPL'') =
           ([failure_message (ascii ''AAPL'') (Exn True long_message)],
            Inr \<lparr>stock_name = ascii ''N/A'', current_price = None, year_high = None,
                  drop_rate = ascii ''N/A'', daily_change = ascii ''N/A''\<rparr>)
         \<and> failure_message (ascii ''AAPL'') (Exn True long_message) =
             ascii ''  '' @ ascii ''AAPL''
             @ [32, 45936, 51060, 53552, 32, 49688, 51665, 32, 49892, 54056, 58, 32]
             @ take 50 (str_exn (Exn True long_message)) @ ascii ''...''"
    by simp
  then have "get_stock_data reliable_stdout failing_provider (ascii ''AAPL'') =
       ([ascii ''  '' @ ascii ''AAPL''
           @ [32, 45936, 51060, 53552, 32, 49688, 51665, 32, 49892, 54056, 58, 32]
           @ ascii ''HTTPSConnectionPool(host=query2.finance.yahoo.com)'' @ ascii ''...''],
        Inr \<lparr>stock_name = ascii ''N/A'', current_price = None, year_high = None,
              drop_rate = ascii ''N/A'', daily_change = ascii ''N/A''\<rparr>)"
    by (simp add: take_50_long_message)
  with p q show ?thesis by simp
qed

lemma korean_not_ascii:
  "\<not> list_all (\<lambda>c. c < 128) (failure_message ticker e)"
  by (simp add: failure_message_def)

text \<open>
  Claim C2 as it is stated fails. An interruption of the construction of the quote
  object is no \<^verbatim>\<open>Exception\<close>, the handler does not catch it and the call raises it;
  and on a standard output that encodes ASCII only, the \<^verbatim>\<open>print\<close> of the diagnostic
  line, which holds Korean text, raises inside the handler and the call raises that.
\<close>

theorem get_stock_data_raises_counterexample:
  "get_stock_data reliable_stdout interrupted_provider (ascii ''AAPL'')
     = ([], Inl (Exn False (ascii ''interrupted'')))
   \<and> get_stock_data ascii_stdout failing_provider (ascii ''AAPL'') = ([], Inl encoding_error)"
  by (simp add: get_stock_data_passes [of interrupted_provider _ "Exn False (ascii ''interrupted'')"]
      get_stock_data_print_raises [of failing_provider _ "Exn True long_message" ascii_stdout
        encoding_error]
      interrupted_provider_def failing_provider_def ascii_stdout_def korean_not_ascii)

section \<open>The shape of a result\<close>

text \<open>
  Claim C10. Every value \<^verbatim>\<open>get_stock_data\<close> returns, after a success and after a total
  failure alike, is a dictionary with exactly the five keys \<^verbatim>\<open>stock_name\<close>,
  \<^verbatim>\<open>current_price\<close>, \<^verbatim>\<open>year_high\<close>, \<^verbatim>\<open>drop_rate\<close> and \<^verbatim>\<open>daily_change\<close>. The name and
  the two rates are strings and the two prices are absent or floats, which the types of
  the fields say; \<^verbatim>\<open>drop_rate\<close> is \<^verbatim>\<open>"N/A"\<close> or \<^verbatim>\<open>-\<close>, a float that is not NaN and
  \<^verbatim>\<open>%\<close>, and \<^verbatim>\<open>daily_change\<close> is \<^verbatim>\<open>"N/A"\<close> or a float and \<^verbatim>\<open>%\<close>. A value is
  returned on both paths: whenever the construction of the quote object returns, and
  whenever it raises an \<^verbatim>\<open>Exception\<close> and the diagnostic line is printed.
\<close>

theorem get_stock_data_result_shape:
  "(\<forall>printed d. get_stock_data out yf ticker = (printed, Inr d) \<longrightarrow>
      (\<exists>name cp yh dr dc.
         d = \<lparr>stock_name = name, current_price = cp, year_high = yh,
               drop_rate = dr, daily_change = dc\<rparr>
         \<and> (dr = ascii ''N/A''
              \<or> (\<exists>x. \<not> is_nan x \<and> dr = ascii ''-'' @ float_repr x @ ascii ''%''))
         \<and> (dc = ascii ''N/A'' \<or> (\<exists>x. dc = float_repr x @ ascii ''%''))))
   \<and> ((\<forall>e. yf ticker = Inl e \<longrightarrow> is_Exception e \<and> out (failure_message ticker e) = None)
        \<longrightarrow> (\<exists>printed d. get_stock_data out yf ticker = (printed, Inr d)))"
proof (intro conjI allI impI)
  fix printed d
  assume returned: "get_stock_data out yf ticker = (printed, Inr d)"
  have drop: "compute_drop_rate cp yh = ascii ''N/A''
      \<or> (\<exists>x. \<not> is_nan x \<and> compute_drop_rate cp yh = ascii ''-'' @ float_repr x @ ascii ''%'')"
    for cp yh
  proof (cases "compute_drop_rate cp yh = ascii ''N/A''")
    case True
    then show ?thesis by simp
  next
    case False
    then obtain c h where "cp = Some c" "yh = Some h" "\<not> is_nan (drawdown_pct c h)"
      "compute_drop_rate cp yh
         = ascii ''-'' @ float_repr (py_round (drawdown_pct c h) 2) @ ascii ''%''"
      by (auto simp: compute_drop_rate_spec split: option.splits if_splits)
    moreover from this have "\<not> is_nan (py_round (drawdown_pct c h) 2)"
      by (cases "drawdown_pct c h") auto
    ultimately show ?thesis by blast
  qed
  have daily: "try_except_pass (daily_block st) (ascii ''N/A'') = ascii ''N/A''
      \<or> (\<exists>x. try_except_pass (daily_block st) (ascii ''N/A'') = float_repr x @ ascii ''%'')"
    for st
    by (auto simp: daily_block_def access_def try_except_pass_def Let_def
        split: sum.splits)
  from get_stock_data_returned [OF returned]
  show "\<exists>name cp yh dr dc.
         d = \<lparr>stock_name = name, current_price = cp, year_high = yh,
               drop_rate = dr, daily_change = dc\<rparr>
         \<and> (dr = ascii ''N/A''
              \<or> (\<exists>x. \<not> is_nan x \<and> dr = ascii ''-'' @ float_repr x @ ascii ''%''))
         \<and> (dc = ascii ''N/A'' \<or> (\<exists>x. dc = float_repr x @ ascii ''%''))"
  proof (elim disjE exE conjE)
    fix st
    assume "d = \<lparr>stock_name = try_except_pass (name_block st) (ascii ''N/A''),
                    current_price = select_current_price st,
                    year_high = select_year_high st,
                    drop_rate = compute_drop_rate (select_current_price st) (select_year_high st),
                    daily_change = try_except_pass (daily_block st) (ascii ''N/A'')\<rparr>"
    with drop [of "select_current_price st" "select_year_high st"] daily [of st]
    show ?thesis by simp
  next
    fix e
    assume "d = failed_data"
    then show ?thesis by (simp add: failed_data_def)
  qed
next
  assume "\<forall>e. yf ticker = Inl e \<longrightarrow> is_Exception e \<and> out (failure_message ticker e) = None"
  then show "\<exists>printed d. get_stock_data out yf ticker = (printed, Inr d)"
    by (intro get_stock_data_returns) blast
qed

text \<open>
  The complete answer gives \<^verbatim>\<open>"-25.0%"\<close> and \<^verbatim>\<open>"-1.5%"\<close>, and a value is returned when
  the construction fails with an \<^verbatim>\<open>Exception\<close> and the line is printed.
\<close>

theorem get_stock_data_result_shape_witness:
  "get_stock_data reliable_stdout apple_provider (ascii ''AAPL'') =
     ([], Inr \<lparr>stock_name = ascii ''Apple Inc.'', current_price = Some (Finite False 150),
               year_high = Some (Finite False 200), drop_rate = ascii ''-25.0%'',
               daily_change = ascii ''-1.5%''\<rparr>)
   \<and> (\<exists>x. \<not> is_nan x \<and> ascii ''-25.0%'' = ascii ''-'' @ float_repr x @ ascii ''%'')
   \<and> (\<exists>x. ascii ''-1.5%'' = float_repr x @ ascii ''%'')
   \<and> (\<forall>e. failing_provider (ascii ''AAPL'') = Inl e \<longleftrightarrow> e = Exn True long_message)
   \<and> is_Exception (Exn True long_message)
   \<and> reliable_stdout (failure_message (ascii ''AAPL'') (Exn True long_message)) = None
   \<and> (\<exists>printed d. get_stock_data reliable_stdout failing_provider (ascii ''AAPL'')
        = (printed, Inr d))"
proof -
  have na: "ascii ''-25.0%'' \<noteq> ascii ''N/A''" "ascii ''-1.5%'' \<noteq> ascii ''N/A''"
    by (simp_all add: ascii_def)
  from get_stock_data_result_shape [of reliable_stdout apple_provider "ascii ''AAPL''",
      THEN conjunct1, rule_format, OF apple_result] na
  have shape: "(\<exists>x. \<not> is_nan x \<and> ascii ''-25.0%'' = ascii ''-'' @ float_repr x @ ascii ''%'')
      \<and> (\<exists>x. ascii ''-1.5%'' = float_repr x @ ascii ''%'')"
    by auto
  have p: "\<forall>e. failing_provider (ascii ''AAPL'') = Inl e \<longleftrightarrow> e = Exn True long_message"
    by (auto simp: failing_provider_def)
  have q: "reliable_stdout (failure_message (ascii ''AAPL'') (Exn True long_message)) = None"
    by (simp add: reliable_stdout_def)
  from p q have "\<forall>e. failing_provider (ascii ''AAPL'') = Inl e \<longrightarrow>
      is_Exception e \<and> reliable_stdout (failure_message (ascii ''AAPL'') e) = None"
    by simp
  with get_stock_data_result_shape [of reliable_stdout failing_provider "ascii ''AAPL''",
      THEN conjunct2]
  have returns: "\<exists>printed d. get_stock_data reliable_stdout failing_provider (ascii ''AAPL'')
        = (printed, Inr d)"
    by blast
  from shape p q returns show ?thesis
    by (simp add: apple_result)
qed

section \<open>The selection of the current price\<close>

lemma truthy_null_or_zero: "truthy v = (\<not> null_or_zero v)"
  by (cases v) simp_all

lemma pd_isna_nan_float: "pd_isna v = (v = VNone \<or> nan_float v)"
  by (cases v) simp_all

lemma checked_float_usable: "try_except_pass (checked_float v) None = usable_value v"
proof (cases "null_or_zero v \<or> nan_float v")
  case True
  then show ?thesis
    by (cases v)
      (auto simp: checked_float_def usable_value_def try_except_pass_def)
next
  case False
  then have "truthy v" and "\<not> pd_isna v"
    by (cases v; simp)+
  with False show ?thesis
    by (simp add: checked_float_def usable_value_def try_except_pass_def split: sum.splits)
qed

lemma py_or_null_or_zero: "py_or a b = (if null_or_zero a then b else a)"
  by (simp add: py_or_def truthy_null_or_zero)

lemma access_pass:
  "try_except_pass (access a f) old
     = (case a of Inl e \<Rightarrow> old | Inr v \<Rightarrow> try_except_pass (f v) old)"
  by (simp add: access_def try_except_pass_def split: sum.splits)

lemma pass_value [simp]: "try_except_pass (Inr v) old = v"
  by (simp add: try_except_pass_def)

lemma fast_block_candidate:
  "try_except_pass (price_fast_block st) None = fast_candidate st"
  by (auto simp: price_fast_block_def fast_candidate_def access_pass checked_float_usable
      split: sum.splits option.splits)

lemma history_block_candidate:
  assumes "close_regular st"
  shows "try_except_pass (price_history_block st) None = close_candidate st"
  using assms
  by (auto simp: price_history_block_def close_candidate_def close_regular_def access_pass
      usable_value_def split: sum.splits option.splits)

lemma info_block_candidate:
  "try_except_pass (price_info_block st) None = metadata_candidate st"
proof (cases "info_for_price st")
  case (Inl e)
  then show ?thesis
    by (simp add: price_info_block_def metadata_candidate_def access_pass)
next
  case (Inr info)
  show ?thesis
  proof (cases "info = []")
    case True
    with Inr show ?thesis
      by (simp add: price_info_block_def metadata_candidate_def access_pass dict_get_def
          usable_value_def)
  next
    case False
    with Inr show ?thesis
      by (simp add: price_info_block_def metadata_candidate_def access_pass
          checked_float_usable py_or_null_or_zero)
  qed
qed

lemma first_present_single [simp]: "first_present [x] = x"
  by (cases x) simp_all

lemma select_current_price_spec:
  assumes "close_regular st"
  shows "select_current_price st
    = first_present [fast_candidate st, close_candidate st, metadata_candidate st]"
proof -
  note blocks = fast_block_candidate history_block_candidate [OF assms] info_block_candidate
  show ?thesis
  proof (cases "fast_candidate st")
    case (Some x)
    then show ?thesis
      by (simp add: select_current_price_def blocks)
  next
    case None
    then show ?thesis
      by (cases "close_candidate st") (simp_all add: select_current_price_def blocks)
  qed
qed

text \<open>
  Claim C3, as amended. For every provider answer whose most recent close, when the
  history has one, is neither zero nor NaN: the current price of the fetch result is the
  float of the first value that counts among, in order, (1) the fast-quote last price,
  (2) the most recent daily close of the history, (3) the metadata price, which is
  \<^verbatim>\<open>currentPrice\<close> unless that is null, zero, \<^verbatim>\<open>False\<close> or empty and
  \<^verbatim>\<open>regularMarketPrice\<close> then. A value counts when it is not null, not zero, not
  \<^verbatim>\<open>False\<close>, not an empty string and not a NaN float, and \<^verbatim>\<open>float\<close> converts it. A
  path that raises offers nothing and the next one is tried; when no value counts the
  current price is absent.
\<close>

theorem current_price_selection:
  assumes "get_stock_data out yf ticker = (printed, Inr d)" and "yf ticker = Inr st"
    and "close_regular st"
  shows "current_price d
    = first_present [fast_candidate st, close_candidate st, metadata_candidate st]"
  using assms(1,2) select_current_price_spec [OF assms(3)]
  by (auto simp: get_stock_data_success [of yf ticker st])

lemma integer_quote_regular: "close_regular integer_quote_stock"
  by code_simp

lemma integer_quote_candidates:
  "[fast_candidate integer_quote_stock, close_candidate integer_quote_stock,
    metadata_candidate integer_quote_stock]
   = [Some (Finite False 150), Some (Finite False 149), Some (Finite False 150)]"
  by code_simp

lemma integer_quote_name: "name_block integer_quote_stock = Inr (ascii ''Apple Inc.'')"
  by code_simp

lemma integer_quote_price: "select_current_price integer_quote_stock = Some (Finite False 150)"
  by code_simp

lemma integer_quote_high: "select_year_high integer_quote_stock = Some (Finite False 200)"
  by code_simp

lemma integer_quote_daily: "daily_block integer_quote_stock = Inr (ascii ''-1.5%'')"
  by code_simp

lemma integer_quote_result:
  "get_stock_data out integer_quote_provider ticker =
     ([], Inr \<lparr>stock_name = ascii ''Apple Inc.'', current_price = Some (Finite False 150),
               year_high = Some (Finite False 200), drop_rate = ascii ''-25.0%'',
               daily_change = ascii ''-1.5%''\<rparr>)"
  by (simp add: get_stock_data_success [of integer_quote_provider ticker integer_quote_stock]
      integer_quote_provider_def integer_quote_name integer_quote_price integer_quote_high
      integer_quote_daily drop_150_200 try_except_pass_def)

lemma metadata_only_regular: "close_regular metadata_only_stock"
  by code_simp

lemma metadata_only_candidates:
  "[fast_candidate metadata_only_stock, close_candidate metadata_only_stock,
    metadata_candidate metadata_only_stock] = [None, None, Some (Finite False 150)]"
  by code_simp

lemma metadata_only_name: "name_block metadata_only_stock = Inr (ascii ''Apple Inc.'')"
  by code_simp

lemma metadata_only_price: "select_current_price metadata_only_stock = Some (Finite False 150)"
  by code_simp

lemma metadata_only_high: "select_year_high metadata_only_stock = Some (Finite False 200)"
  by code_simp

lemma metadata_only_daily: "daily_block metadata_only_stock = Inr (ascii ''-1.5%'')"
  by code_simp

lemma metadata_only_result:
  "get_stock_data out metadata_only_provider ticker =
     ([], Inr \<lparr>stock_name = ascii ''Apple Inc.'', current_price = Some (Finite False 150),
               year_high = Some (Finite False 200), drop_rate = ascii ''-25.0%'',
               daily_change = ascii ''-1.5%''\<rparr>)"
  by (simp add: get_stock_data_success [of metadata_only_provider ticker metadata_only_stock]
      metadata_only_provider_def metadata_only_name metadata_only_price metadata_only_high
      metadata_only_daily drop_150_200 try_except_pass_def)

text \<open>
  An integer last price of 150 is taken as the float 150.0, before the close of 149;
  and when the fast quote raises and the history has no row, the metadata price is taken.
\<close>

theorem current_price_selection_witness:
  "get_stock_data reliable_stdout integer_quote_provider (ascii ''AAPL'') =
     ([], Inr \<lparr>stock_name = ascii ''Apple Inc.'', current_price = Some (Finite False 150),
               year_high = Some (Finite False 200), drop_rate = ascii ''-25.0%'',
               daily_change = ascii ''-1.5%''\<rparr>)
   \<and> integer_quote_provider (ascii ''AAPL'') = Inr integer_quote_stock
   \<and> close_regular integer_quote_stock
   \<and> first_present [fast_candidate integer_quote_stock, close_candidate integer_quote_stock,
        metadata_candidate integer_quote_stock] = Some (Finite False 150)
   \<and> get_stock_data reliable_stdout metadata_only_provider (ascii ''AAPL'') =
     ([], Inr \<lparr>stock_name = ascii ''Apple Inc.'', current_price = Some (Finite False 150),
               year_high = Some (Finite False 200), drop_rate = ascii ''-25.0%'',
               daily_change = ascii ''-1.5%''\<rparr>)
   \<and> metadata_only_provider (ascii ''AAPL'') = Inr metadata_only_stock
   \<and> close_regular metadata_only_stock
   \<and> first_present [fast_candidate metadata_only_stock, close_candidate metadata_only_stock,
        metadata_candidate metadata_only_stock] = Some (Finite False 150)"
proof -
  have p: "integer_quote_provider (ascii ''AAPL'') = Inr integer_quote_stock"
    by (simp add: integer_quote_provider_def)
  have q: "metadata_only_provider (ascii ''AAPL'') = Inr metadata_only_stock"
    by (simp add: metadata_only_provider_def)
  have a: "Some (Finite False 150)
      = first_present [fast_candidate integer_quote_stock, close_candidate integer_quote_stock,
          metadata_candidate integer_quote_stock]"
    using current_price_selection [OF integer_quote_result p integer_quote_regular]
    by simp
  have b: "Some (Finite False 150)
      = first_present [fast_candidate metadata_only_stock, close_candidate metadata_only_stock,
          metadata_candidate metadata_only_stock]"
    using current_price_selection [OF metadata_only_result q metadata_only_regular]
    by simp
  from a b p q integer_quote_result metadata_only_result integer_quote_regular
    metadata_only_regular
  show ?thesis
    by simp
qed

lemma zero_quote_name: "name_block zero_quote_stock = Inr (ascii ''Apple Inc.'')"
  by code_simp

lemma zero_quote_price: "select_current_price zero_quote_stock = Some (Finite False 149)"
  by code_simp

lemma zero_quote_high: "select_year_high zero_quote_stock = Some (Finite False 200)"
  by code_simp

lemma zero_quote_daily: "daily_block zero_quote_stock = Inr (ascii ''-1.5%'')"
  by code_simp

lemma drop_149_200:
  "compute_drop_rate (Some (Finite False 149)) (Some (Finite False 200)) = ascii ''-25.5%''"
  by code_simp

lemma zero_quote_result:
  "get_stock_data out zero_quote_provider ticker =
     ([], Inr \<lparr>stock_name = ascii ''Apple Inc.'', current_price = Some (Finite False 149),
               year_high = Some (Finite False 200), drop_rate = ascii ''-25.5%'',
               daily_change = ascii ''-1.5%''\<rparr>)"
  by (simp add: get_stock_data_success [of zero_quote_provider ticker zero_quote_stock]
      zero_quote_provider_def zero_quote_name zero_quote_price zero_quote_high
      zero_quote_daily drop_149_200 try_except_pass_def)

lemma zero_quote_claimed:
  "first_valid_number (price_candidates zero_quote_stock) = Some (VFloat (Finite False 0))"
  by code_simp

text \<open>
  Claim C3 as it is stated fails. A fast-quote last price of 0.0 is a numeric value that
  is neither null nor NaN, so it is the first such value; the source tests the truth
  value of the price, skips the zero and takes the latest close of 149.
\<close>

theorem current_price_zero_counterexample:
  "get_stock_data reliable_stdout zero_quote_provider (ascii ''AAPL'') =
     ([], Inr \<lparr>stock_name = ascii ''Apple Inc.'', current_price = Some (Finite False 149),
               year_high = Some (Finite False 200), drop_rate = ascii ''-25.5%'',
               daily_change = ascii ''-1.5%''\<rparr>)
   \<and> first_valid_number (price_candidates zero_quote_stock) = Some (VFloat (Finite False 0))
   \<and> Finite False 149 \<noteq> Finite False 0"
  by (simp add: zero_quote_result zero_quote_claimed)

section \<open>The colours\<close>

lemma float_of_na: "float_of_str (ascii ''N/A'') = Inl ValueError"
  by code_simp

lemma float_of_zero: "float_of_str (ascii ''0.00'') = Inr (Finite False 0)"
  by code_simp

lemma strip_na: "remove_char 37 (remove_char 45 (ascii ''N/A'')) = ascii ''N/A''"
  by code_simp

lemma strip_default_drop: "remove_char 37 (remove_char 45 (ascii ''-0.00%'')) = ascii ''0.00''"
  by code_simp

lemma strip_percent_na: "remove_char 37 (ascii ''N/A'') = ascii ''N/A''"
  by code_simp

lemma strip_percent_default: "remove_char 37 (ascii ''0.00%'') = ascii ''0.00''"
  by code_simp

lemma ten_above_zero: "\<not> fle (fconst 10) (Finite False 0)"
  by code_simp

lemma zero_not_below_zero: "\<not> fless (Finite False 0) (fconst 0)"
  by code_simp

lemma purple_not_empty: "purple \<noteq> []"
  by (simp add: purple_def)

lemma na_not_default_drop: "ascii ''N/A'' \<noteq> ascii ''-0.00%''"
  by (simp add: ascii_def)

lemma na_not_default_daily: "ascii ''N/A'' \<noteq> ascii ''0.00%''"
  by (simp add: ascii_def)

lemma colored_drop_str_spec:
  "colored_drop_str (drop_str s) =
     (if \<exists>x. float_of_str (remove_char 37 (remove_char 45 s)) = Inr x \<and> fle (fconst 10) x
      then purple @ drop_str s @ reset_code else drop_str s)"
proof -
  consider "s = ascii ''N/A''" | "s = ascii ''-0.00%''"
    | "s \<noteq> ascii ''N/A''" "s \<noteq> ascii ''-0.00%''"
    by blast
  then show ?thesis
  proof cases
    case 1
    then show ?thesis
      by (simp add: colored_drop_str_def drop_str_def get_drop_color_code_def strip_na
          float_of_na)
  next
    case 2
    then show ?thesis
      by (simp add: colored_drop_str_def drop_str_def get_drop_color_code_def
          strip_default_drop float_of_zero ten_above_zero)
  next
    case 3
    then show ?thesis
      by (auto simp: colored_drop_str_def drop_str_def get_drop_color_code_def Let_def
          purple_not_empty split: sum.splits)
  qed
qed

lemma colored_daily_str_spec:
  "colored_daily_str (daily_str s) =
     (if \<exists>x. float_of_str (remove_char 37 s) = Inr x \<and> fless x (fconst 0)
      then red else blue) @ daily_str s @ reset_code"
proof -
  consider "s = ascii ''N/A''" | "s = ascii ''0.00%''"
    | "s \<noteq> ascii ''N/A''" "s \<noteq> ascii ''0.00%''"
    by blast
  then show ?thesis
  proof cases
    case 1
    then show ?thesis
      by (simp add: colored_daily_str_def daily_str_def get_daily_color_code_def
          strip_percent_na float_of_na)
  next
    case 2
    then show ?thesis
      by (simp add: colored_daily_str_def daily_str_def get_daily_color_code_def
          strip_percent_default float_of_zero zero_not_below_zero)
  next
    case 3
    then show ?thesis
      by (auto simp: colored_daily_str_def daily_str_def get_daily_color_code_def
          split: sum.splits)
  qed
qed

text \<open>
  Claim C4. For every drawdown string passed to the formatter, the text on the drawdown
  line is wrapped in the highlight colour exactly when the string with every \<^verbatim>\<open>-\<close> and
  \<^verbatim>\<open>%\<close> removed parses as a float that is at least 10, and is the plain text
  otherwise; \<^verbatim>\<open>"N/A"\<close> and the default \<^verbatim>\<open>"-0.00%"\<close> are never highlighted, and a
  string that does not parse is left without colour.
\<close>

theorem drawdown_highlight:
  "format_stock_summary d t =
     summary_template t (stock_name d) (price_str (current_price d)) (high_str (year_high d))
       (if \<exists>x. float_of_str (remove_char 37 (remove_char 45 (drop_rate d))) = Inr x
              \<and> fle (fconst 10) x
        then purple @ drop_str (drop_rate d) @ reset_code
        else drop_str (drop_rate d))
       (colored_daily_str (daily_str (daily_change d)))
   \<and> colored_drop_str (drop_str (ascii ''N/A'')) = ascii ''-0.00%''
   \<and> colored_drop_str (ascii ''-0.00%'') = ascii ''-0.00%''
   \<and> (\<forall>s. (\<forall>x. float_of_str (remove_char 37 (remove_char 45 s)) \<noteq> Inr x)
          \<longrightarrow> colored_drop_str (drop_str s) = drop_str s)"
proof (intro conjI allI impI)
  show "format_stock_summary d t =
     summary_template t (stock_name d) (price_str (current_price d)) (high_str (year_high d))
       (if \<exists>x. float_of_str (remove_char 37 (remove_char 45 (drop_rate d))) = Inr x
              \<and> fle (fconst 10) x
        then purple @ drop_str (drop_rate d) @ reset_code
        else drop_str (drop_rate d))
       (colored_daily_str (daily_str (daily_change d)))"
    unfolding format_stock_summary_def by (simp only: colored_drop_str_spec)
  show "colored_drop_str (drop_str (ascii ''N/A'')) = ascii ''-0.00%''"
    by (simp add: colored_drop_str_def drop_str_def get_drop_color_code_def)
  show "colored_drop_str (ascii ''-0.00%'') = ascii ''-0.00%''"
    by (simp add: colored_drop_str_def get_drop_color_code_def)
next
  fix s
  assume "\<forall>x. float_of_str (remove_char 37 (remove_char 45 s)) \<noteq> Inr x"
  then show "colored_drop_str (drop_str s) = drop_str s"
    by (simp add: colored_drop_str_spec)
qed

lemma float_of_25: "float_of_str (ascii ''25.0'') = Inr (Finite False 25)"
  by code_simp

lemma strip_25: "remove_char 37 (remove_char 45 (ascii ''-25.0%'')) = ascii ''25.0''"
  by code_simp

lemma ten_below_25: "fle (fconst 10) (Finite False 25)"
  by code_simp

lemma float_of_9_99:
  "float_of_str (ascii ''9.99'') = Inr (Finite False (5623870034678907 / 562949953421312))"
  by code_simp

lemma strip_9_99: "remove_char 37 (remove_char 45 (ascii ''-9.99%'')) = ascii ''9.99''"
  by code_simp

lemma ten_above_9_99: "\<not> fle (fconst 10) (Finite False (5623870034678907 / 562949953421312))"
  by code_simp

text \<open>A drawdown of 25.0 is highlighted, one of 9.99 is not.\<close>

theorem drawdown_highlight_witness:
  "format_stock_summary
     \<lparr>stock_name = ascii ''Apple Inc.'', current_price = Some (Finite False 150),
      year_high = Some (Finite False 200), drop_rate = ascii ''-25.0%'',
      daily_change = ascii ''-1.5%''\<rparr> (ascii ''AAPL'')
   = summary_template (ascii ''AAPL'') (ascii ''Apple Inc.'')
       (price_str (Some (Finite False 150))) (high_str (Some (Finite False 200)))
       (purple @ ascii ''-25.0%'' @ reset_code)
       (colored_daily_str (daily_str (ascii ''-1.5%'')))
   \<and> colored_drop_str (drop_str (ascii ''-9.99%'')) = ascii ''-9.99%''"
proof -
  have "\<exists>x. float_of_str (remove_char 37 (remove_char 45 (ascii ''-25.0%''))) = Inr x
      \<and> fle (fconst 10) x"
    by (simp add: strip_25 float_of_25 ten_below_25)
  moreover have "ascii ''-25.0%'' \<noteq> ascii ''N/A''"
    by (simp add: ascii_def)
  ultimately have first: "format_stock_summary
     \<lparr>stock_name = ascii ''Apple Inc.'', current_price = Some (Finite False 150),
      year_high = Some (Finite False 200), drop_rate = ascii ''-25.0%'',
      daily_change = ascii ''-1.5%''\<rparr> (ascii ''AAPL'')
   = summary_template (ascii ''AAPL'') (ascii ''Apple Inc.'')
       (price_str (Some (Finite False 150))) (high_str (Some (Finite False 200)))
       (purple @ ascii ''-25.0%'' @ reset_code)
       (colored_daily_str (daily_str (ascii ''-1.5%'')))"
    using drawdown_highlight [of "\<lparr>stock_name = ascii ''Apple Inc.'',
      current_price = Some (Finite False 150), year_high = Some (Finite False 200),
      drop_rate = ascii ''-25.0%'', daily_change = ascii ''-1.5%''\<rparr>" "ascii ''AAPL''"]
    by (simp add: drop_str_def)
  have "ascii ''-9.99%'' \<noteq> ascii ''N/A''"
    by (simp add: ascii_def)
  then have "drop_str (ascii ''-9.99%'') = ascii ''-9.99%''"
    by (simp add: drop_str_def)
  moreover have "colored_drop_str (drop_str (ascii ''-9.99%'')) = drop_str (ascii ''-9.99%'')"
    by (simp add: colored_drop_str_spec strip_9_99 float_of_9_99 ten_above_9_99)
  ultimately have "colored_drop_str (drop_str (ascii ''-9.99%'')) = ascii ''-9.99%''"
    by simp
  with first show ?thesis by simp
qed

text \<open>
  Claim C5. For every daily-change string passed to the formatter, the text on the
  daily-change line is wrapped in the negative colour exactly when the string with
  every \<^verbatim>\<open>%\<close> removed parses as a float strictly below 0, and in the neutral colour
  otherwise: for zero, for a positive value, for \<^verbatim>\<open>"N/A"\<close> and its default
  \<^verbatim>\<open>"0.00%"\<close>, and for a string that does not parse.
\<close>

theorem daily_change_colour:
  "format_stock_summary d t =
     summary_template t (stock_name d) (price_str (current_price d)) (high_str (year_high d))
       (colored_drop_str (drop_str (drop_rate d)))
       ((if \<exists>x. float_of_str (remove_char 37 (daily_change d)) = Inr x \<and> fless x (fconst 0)
         then red else blue) @ daily_str (daily_change d) @ reset_code)
   \<and> colored_daily_str (daily_str (ascii ''N/A'')) = blue @ ascii ''0.00%'' @ reset_code
   \<and> colored_daily_str (ascii ''0.00%'') = blue @ ascii ''0.00%'' @ reset_code
   \<and> (\<forall>s. (\<forall>x. float_of_str (remove_char 37 s) \<noteq> Inr x)
          \<longrightarrow> colored_daily_str (daily_str s) = blue @ daily_str s @ reset_code)"
proof (intro conjI allI impI)
  show "format_stock_summary d t =
     summary_template t (stock_name d) (price_str (current_price d)) (high_str (year_high d))
       (colored_drop_str (drop_str (drop_rate d)))
       ((if \<exists>x. float_of_str (remove_char 37 (daily_change d)) = Inr x \<and> fless x (fconst 0)
         then red else blue) @ daily_str (daily_change d) @ reset_code)"
    unfolding format_stock_summary_def by (simp only: colored_daily_str_spec)
  show "colored_daily_str (daily_str (ascii ''N/A'')) = blue @ ascii ''0.00%'' @ reset_code"
    by (simp add: colored_daily_str_def daily_str_def get_daily_color_code_def)
  show "colored_daily_str (ascii ''0.00%'') = blue @ ascii ''0.00%'' @ reset_code"
    by (simp add: colored_daily_str_def get_daily_color_code_def)
next
  fix s
  assume "\<forall>x. float_of_str (remove_char 37 s) \<noteq> Inr x"
  then show "colored_daily_str (daily_str s) = blue @ daily_str s @ reset_code"
    by (simp add: colored_daily_str_spec)
qed

lemma float_of_minus_3_2:
  "float_of_str (remove_char 37 (ascii ''-3.2%''))
     = Inr (Finite True (3602879701896397 / 1125899906842624))"
  by code_simp

lemma minus_3_2_below_zero:
  "fless (Finite True (3602879701896397 / 1125899906842624)) (fconst 0)"
  by code_simp

lemma float_of_3_2:
  "float_of_str (remove_char 37 (ascii ''3.2%''))
     = Inr (Finite False (3602879701896397 / 1125899906842624))"
  by code_simp

lemma plus_3_2_not_below_zero:
  "\<not> fless (Finite False (3602879701896397 / 1125899906842624)) (fconst 0)"
  by code_simp

text \<open>A change of -3.2 percent is red, one of 3.2 percent is blue.\<close>

theorem daily_change_colour_witness:
  "format_stock_summary
     \<lparr>stock_name = ascii ''Apple Inc.'', current_price = None, year_high = None,
      drop_rate = ascii ''N/A'', daily_change = ascii ''-3.2%''\<rparr> (ascii ''AAPL'')
   = summary_template (ascii ''AAPL'') (ascii ''Apple Inc.'') (price_str None) (high_str None)
       (colored_drop_str (drop_str (ascii ''N/A''))) (red @ ascii ''-3.2%'' @ reset_code)
   \<and> format_stock_summary
     \<lparr>stock_name = ascii ''Apple Inc.'', current_price = None, year_high = None,
      drop_rate = ascii ''N/A'', daily_change = ascii ''3.2%''\<rparr> (ascii ''AAPL'')
   = summary_template (ascii ''AAPL'') (ascii ''Apple Inc.'') (price_str None) (high_str None)
       (colored_drop_str (drop_str (ascii ''N/A''))) (blue @ ascii ''3.2%'' @ reset_code)"
proof -
  have a: "ascii ''-3.2%'' \<noteq> ascii ''N/A''" and b: "ascii ''3.2%'' \<noteq> ascii ''N/A''"
    by (simp_all add: ascii_def)
  show ?thesis
    using daily_change_colour [of "\<lparr>stock_name = ascii ''Apple Inc.'', current_price = None,
        year_high = None, drop_rate = ascii ''N/A'', daily_change = ascii ''-3.2%''\<rparr>"
        "ascii ''AAPL''"]
      daily_change_colour [of "\<lparr>stock_name = ascii ''Apple Inc.'', current_price = None,
        year_high = None, drop_rate = ascii ''N/A'', daily_change = ascii ''3.2%''\<rparr>"
        "ascii ''AAPL''"]
    by (simp add: float_of_minus_3_2 minus_3_2_below_zero float_of_3_2 plus_3_2_not_below_zero
        daily_str_def a b)
qed

section \<open>Defaults and layout\<close>

lemma default_drop_plain: "colored_drop_str (ascii ''-0.00%'') = ascii ''-0.00%''"
  by (simp add: colored_drop_str_def get_drop_color_code_def)

lemma default_daily_blue: "colored_daily_str (ascii ''0.00%'') = blue @ ascii ''0.00%'' @ reset_code"
  by (simp add: colored_daily_str_def get_daily_color_code_def)

text \<open>
  Claim C6. For every record the formatter applies the defaults: an absent current
  price is rendered as \<^verbatim>\<open>"$0"\<close>, an absent year high as \<^verbatim>\<open>"$0"\<close>, a drawdown of
  \<^verbatim>\<open>"N/A"\<close> as \<^verbatim>\<open>"-0.00%"\<close> without colour and a daily change of \<^verbatim>\<open>"N/A"\<close> as
  \<^verbatim>\<open>"0.00%"\<close> in the neutral colour, each whatever the other fields are; the last
  equation is the whole text for a record with all four missing.
\<close>

theorem render_time_defaults:
  "format_stock_summary (d\<lparr>current_price := None\<rparr>) t =
     summary_template t (stock_name d) (ascii ''$0'') (high_str (year_high d))
       (colored_drop_str (drop_str (drop_rate d)))
       (colored_daily_str (daily_str (daily_change d)))
   \<and> format_stock_summary (d\<lparr>year_high := None\<rparr>) t =
     summary_template t (stock_name d) (price_str (current_price d)) (ascii ''$0'')
       (colored_drop_str (drop_str (drop_rate d)))
       (colored_daily_str (daily_str (daily_change d)))
   \<and> format_stock_summary (d\<lparr>drop_rate := ascii ''N/A''\<rparr>) t =
     summary_template t (stock_name d) (price_str (current_price d)) (high_str (year_high d))
       (ascii ''-0.00%'')
       (colored_daily_str (daily_str (daily_change d)))
   \<and> format_stock_summary (d\<lparr>daily_change := ascii ''N/A''\<rparr>) t =
     summary_template t (stock_name d) (price_str (current_price d)) (high_str (year_high d))
       (colored_drop_str (drop_str (drop_rate d)))
       (blue @ ascii ''0.00%'' @ reset_code)
   \<and> format_stock_summary
       \<lparr>stock_name = name, current_price = None, year_high = None,
        drop_rate = ascii ''N/A'', daily_change = ascii ''N/A''\<rparr> t =
     ascii ''=== '' @ t @ ascii ''('' @ name @ ascii '') ==='' @ [10]
     @ price_label @ ascii ''$0'' @ [10]
     @ high_label @ ascii ''$0'' @ [10]
     @ drop_label @ ascii ''-0.00%'' @ [10]
     @ daily_label @ blue @ ascii ''0.00%'' @ reset_code"
  by (simp add: format_stock_summary_def price_str_def high_str_def drop_str_def daily_str_def
      default_drop_plain default_daily_blue summary_template_def)

text \<open>The record of a failed fetch.\<close>

theorem render_time_defaults_witness:
  "format_stock_summary failed_data (ascii ''AAPL'') =
     ascii ''=== '' @ ascii ''AAPL'' @ ascii ''('' @ ascii ''N/A'' @ ascii '') ==='' @ [10]
     @ price_label @ ascii ''$0'' @ [10]
     @ high_label @ ascii ''$0'' @ [10]
     @ drop_label @ ascii ''-0.00%'' @ [10]
     @ daily_label @ blue @ ascii ''0.00%'' @ reset_code"
  using render_time_defaults [of failed_data "ascii ''AAPL''" "ascii ''N/A''",
      THEN conjunct2, THEN conjunct2, THEN conjunct2, THEN conjunct2]
  by (simp add: failed_data_def)

section \<open>Lines\<close>

lemma split_lines_not_empty [simp]: "split_lines s \<noteq> []"
  by (induction s) (auto split: list.splits)

lemma split_lines_single:
  assumes "10 \<notin> set a"
  shows "split_lines a = [a]"
  using assms by (induction a) auto

lemma split_lines_append:
  assumes "10 \<notin> set a"
  shows "split_lines (a @ 10 # b) = a # split_lines b"
  using assms by (induction a) auto

lemma digits_of_range:
  assumes "0 \<le> n"
  shows "\<forall>c \<in> set (digits_of n). 48 \<le> c \<and> c \<le> 57"
  using assms
proof (induction n rule: digits_of.induct)
  case (1 n)
  show ?case
  proof (cases "n < 10")
    case True
    with "1.prems" show ?thesis
      by (subst digits_of.simps) simp
  next
    case False
    with "1.prems" have "0 \<le> n div 10" by simp
    with False "1.IH" have "\<forall>c \<in> set (digits_of (n div 10)). 48 \<le> c \<and> c \<le> 57"
      by simp
    moreover have "0 \<le> n mod 10" "n mod 10 < 10" by simp_all
    ultimately show ?thesis
      using False by (subst digits_of.simps) auto
  qed
qed

lemma rne_nonneg:
  assumes "0 \<le> q"
  shows "0 \<le> rne q"
proof -
  from assms have "0 \<le> \<lfloor>q\<rfloor>" by simp
  then show ?thesis
    by (simp add: rne_def Let_def)
qed

lemma ascii_no_newline_labels:
  "10 \<notin> set price_label" "10 \<notin> set high_label" "10 \<notin> set drop_label"
  "10 \<notin> set daily_label" "10 \<notin> set purple" "10 \<notin> set blue" "10 \<notin> set red"
  "10 \<notin> set reset_code"
  by (simp_all add: price_label_def high_label_def drop_label_def daily_label_def purple_def
      blue_def red_def reset_code_def ascii_def)

lemma format_2f_no_newline: "10 \<notin> set (format_2f x)"
proof (cases x)
  case (Finite s m)
  have "0 \<le> rne (\<bar>m\<bar> * 100)"
    by (rule rne_nonneg) simp
  then have "0 \<le> rne (\<bar>m\<bar> * 100) div 100"
    by simp
  then have "\<forall>c \<in> set (digits_of (rne (\<bar>m\<bar> * 100) div 100)). 48 \<le> c \<and> c \<le> 57"
    by (rule digits_of_range)
  moreover have "0 \<le> rne (\<bar>m\<bar> * 100) mod 100 div 10" "0 \<le> rne (\<bar>m\<bar> * 100) mod 10"
    by simp_all
  ultimately show ?thesis
    using Finite by (auto simp: Let_def)
next
  case (Infinity s)
  then show ?thesis by (simp add: ascii_def)
next
  case NaN
  then show ?thesis by (simp add: ascii_def)
qed

lemma price_str_no_newline: "10 \<notin> set (price_str p)"
  by (cases p) (simp_all add: price_str_def format_2f_no_newline ascii_def)

lemma high_str_no_newline: "10 \<notin> set (high_str p)"
  by (cases p) (simp_all add: high_str_def format_2f_no_newline ascii_def)

lemma drop_str_no_newline:
  assumes "10 \<notin> set s"
  shows "10 \<notin> set (drop_str s)"
  using assms by (simp add: drop_str_def ascii_def)

lemma daily_str_no_newline:
  assumes "10 \<notin> set s"
  shows "10 \<notin> set (daily_str s)"
  using assms by (simp add: daily_str_def ascii_def)

lemma colored_drop_no_newline:
  assumes "10 \<notin> set s"
  shows "10 \<notin> set (colored_drop_str s)"
  using assms ascii_no_newline_labels
  by (auto simp: colored_drop_str_def get_drop_color_code_def Let_def split: sum.splits)

lemma colored_daily_no_newline:
  assumes "10 \<notin> set s"
  shows "10 \<notin> set (colored_daily_str s)"
  using assms ascii_no_newline_labels
  by (auto simp: colored_daily_str_def get_daily_color_code_def split: sum.splits)

lemma summary_template_lines:
  assumes "10 \<notin> set t" "10 \<notin> set name" "10 \<notin> set p" "10 \<notin> set h" "10 \<notin> set cd"
    "10 \<notin> set cc"
  shows "split_lines (summary_template t name p h cd cc) =
    [ascii ''=== '' @ t @ ascii ''('' @ name @ ascii '') ==='',
     price_label @ p, high_label @ h, drop_label @ cd, daily_label @ cc]"
proof -
  have l0: "10 \<notin> set (ascii ''=== '' @ t @ ascii ''('' @ name @ ascii '') ==='')"
    using assms by (simp add: ascii_def)
  have l1: "10 \<notin> set (price_label @ p)" and l2: "10 \<notin> set (high_label @ h)"
    and l3: "10 \<notin> set (drop_label @ cd)" and l4: "10 \<notin> set (daily_label @ cc)"
    using assms ascii_no_newline_labels by simp_all
  have "summary_template t name p h cd cc =
      (ascii ''=== '' @ t @ ascii ''('' @ name @ ascii '') ==='') @ 10 #
      (price_label @ p) @ 10 # (high_label @ h) @ 10 # (drop_label @ cd) @ 10 #
      (daily_label @ cc)"
    by (simp add: summary_template_def)
  then show ?thesis
    by (simp only: split_lines_append [OF l0] split_lines_append [OF l1]
        split_lines_append [OF l2] split_lines_append [OF l3] split_lines_single [OF l4])
qed

text \<open>
  Claim C7, as amended. For every record and ticker in which the ticker, the name, the
  drawdown string and the daily-change string hold no newline character, the text the
  formatter returns has exactly five lines (the pieces between its newline characters):
  the header \<^verbatim>\<open>=== TICKER(NAME) ===\<close>, then the labelled lines for the current
  price, the year high, the drawdown and the daily change, in that order, whichever
  fields are missing.
\<close>

theorem summary_has_five_lines:
  assumes "10 \<notin> set t" and "10 \<notin> set (stock_name d)" and "10 \<notin> set (drop_rate d)"
    and "10 \<notin> set (daily_change d)"
  shows "split_lines (format_stock_summary d t) =
    [ascii ''=== '' @ t @ ascii ''('' @ stock_name d @ ascii '') ==='',
     price_label @ price_str (current_price d),
     high_label @ high_str (year_high d),
     drop_label @ colored_drop_str (drop_str (drop_rate d)),
     daily_label @ colored_daily_str (daily_str (daily_change d))]"
  unfolding format_stock_summary_def
  by (intro summary_template_lines assms price_str_no_newline high_str_no_newline
      colored_drop_no_newline colored_daily_no_newline drop_str_no_newline daily_str_no_newline)

text \<open>The record of a failed fetch, all fields missing.\<close>

theorem summary_has_five_lines_witness:
  "10 \<notin> set (ascii ''AAPL'') \<and> 10 \<notin> set (stock_name failed_data)
   \<and> 10 \<notin> set (drop_rate failed_data) \<and> 10 \<notin> set (daily_change failed_data)
   \<and> split_lines (format_stock_summary failed_data (ascii ''AAPL'')) =
      [ascii ''=== '' @ ascii ''AAPL'' @ ascii ''('' @ ascii ''N/A'' @ ascii '') ==='',
       price_label @ ascii ''$0'', high_label @ ascii ''$0'',
       drop_label @ ascii ''-0.00%'', daily_label @ blue @ ascii ''0.00%'' @ reset_code]"
proof -
  have h: "10 \<notin> set (ascii ''AAPL'')" "10 \<notin> set (stock_name failed_data)"
    "10 \<notin> set (drop_rate failed_data)" "10 \<notin> set (daily_change failed_data)"
    by (simp_all add: failed_data_def ascii_def)
  have "split_lines (format_stock_summary failed_data (ascii ''AAPL'')) =
      [ascii ''=== '' @ ascii ''AAPL'' @ ascii ''('' @ ascii ''N/A'' @ ascii '') ==='',
       price_label @ ascii ''$0'', high_label @ ascii ''$0'',
       drop_label @ ascii ''-0.00%'', daily_label @ blue @ ascii ''0.00%'' @ reset_code]"
    unfolding summary_has_five_lines [OF h]
    by (simp add: failed_data_def price_str_def high_str_def drop_str_def daily_str_def
        default_drop_plain default_daily_blue)
  with h show ?thesis by simp
qed

lemma two_line_name_lines:
  "length (split_lines (format_stock_summary two_line_name_data (ascii ''AAPL''))) = 6"
  by code_simp

lemma two_line_name_first:
  "take 2 (split_lines (format_stock_summary two_line_name_data (ascii ''AAPL'')))
     = [ascii ''=== AAPL(A'', ascii ''B) ==='']"
  by code_simp

text \<open>
  Claim C7 as it is stated fails. The name is interpolated as it is, so a name with a
  newline character in it splits the header: the text has six lines, and its first line
  is not a header.
\<close>

theorem summary_line_count_counterexample:
  "length (split_lines (format_stock_summary two_line_name_data (ascii ''AAPL''))) = 6
   \<and> take 2 (split_lines (format_stock_summary two_line_name_data (ascii ''AAPL'')))
       = [ascii ''=== AAPL(A'', ascii ''B) ==='']
   \<and> length (split_lines (format_stock_summary two_line_name_data (ascii ''AAPL''))) \<noteq> 5"
  by (simp add: two_line_name_lines two_line_name_first)

section \<open>The schedule of a run\<close>

lemma calls_simps [simp]:
  "calls [] = []"
  "calls (Print s # evs) = calls evs"
  "calls (Fetch t # evs) = Fetch t # calls evs"
  "calls (Sleep x # evs) = Sleep x # calls evs"
  "calls (evs @ evs') = calls evs @ calls evs'"
  "calls (map Print ss) = []"
  by (simp_all add: calls_def)

lemma fetches_with_pauses_Cons:
  "fetches_with_pauses (t # ts) =
     Fetch t # (if ts = [] then [] else pause # fetches_with_pauses ts)"
  by (cases ts) simp_all

lemma fetches_with_pauses_append:
  "fetches_with_pauses (ts @ us) =
     (if us = [] then fetches_with_pauses ts
      else fetches_all_paused ts @ fetches_with_pauses us)"
proof (induction ts)
  case Nil
  then show ?case by (simp add: fetches_all_paused_def)
next
  case (Cons t ts)
  then show ?case
    by (simp add: fetches_with_pauses_Cons fetches_all_paused_def)
qed

lemma print_all_calls:
  assumes "print_all con evs ss = (evs', r)"
  shows "calls evs' = calls evs"
  using assms
proof (induction ss arbitrary: evs)
  case Nil
  then show ?case by simp
next
  case (Cons s ss)
  show ?case
  proof (cases "con evs s")
    case None
    with Cons.prems have "print_all con (evs @ [Print s]) ss = (evs', r)"
      by simp
    from Cons.IH [OF this] show ?thesis by simp
  next
    case (Some e)
    with Cons.prems show ?thesis by simp
  qed
qed

lemma print_all_reliable:
  assumes "\<forall>evs s. con evs s = None"
  shows "\<exists>evs'. print_all con evs ss = (evs', None)"
  using assms by (induction ss arbitrary: evs) simp_all

lemma ticker_loop_calls:
  assumes "ticker_loop con yf tot n i count evs ts = (evs', Inr k)"
    and "count + length ts \<le> tot"
  shows "k = count + length ts
    \<and> calls evs' = calls evs @ (if count + length ts < tot then fetches_all_paused ts
                                else fetches_with_pauses ts)"
  using assms
proof (induction ts arbitrary: i count evs)
  case Nil
  then show ?case by (auto simp: fetches_all_paused_def)
next
  case (Cons t ts)
  obtain printed r where fetch: "get_stock_data (con (evs @ [Fetch t])) yf t = (printed, r)"
    by (cases "get_stock_data (con (evs @ [Fetch t])) yf t")
  with Cons.prems(1) obtain d where d: "r = Inr d"
    by (cases r) (simp_all del: print_all.simps)
  let ?texts = "format_stock_summary d t # (if int i < int n - 1 then [10 # ascii ''---''] else [])"
  obtain evs1 pr where shown:
    "print_all con (evs @ Fetch t # map Print printed) ?texts = (evs1, pr)"
    by (cases "print_all con (evs @ Fetch t # map Print printed) ?texts")
  with Cons.prems(1) fetch d have pr: "pr = None"
    by (cases pr) (simp_all del: print_all.simps)
  let ?evs2 = "evs1 @ (if count + 1 < tot then [Sleep (Finite False (1 / 2))] else [])"
  from Cons.prems(1) fetch d shown pr
  have rest: "ticker_loop con yf tot n (i + 1) (count + 1) ?evs2 ts = (evs', Inr k)"
    by (simp del: print_all.simps)
  from Cons.prems(2) have bound: "count + 1 + length ts \<le> tot" by simp
  note ih = Cons.IH [OF rest bound]
  have shown_calls: "calls evs1 = calls evs @ [Fetch t]"
    using print_all_calls [OF shown] by simp
  from ih have "k = count + length (t # ts)" by simp
  moreover have "calls evs' = calls evs @
      (if count + length (t # ts) < tot then fetches_all_paused (t # ts)
       else fetches_with_pauses (t # ts))"
  proof (cases "count + length (t # ts) < tot")
    case True
    with ih shown_calls show ?thesis
      by (simp add: fetches_all_paused_def pause_def)
  next
    case False
    with Cons.prems(2) have eq: "count + 1 + length ts = tot" by simp
    show ?thesis
    proof (cases "ts = []")
      case True
      with eq ih shown_calls show ?thesis
        by (simp add: fetches_with_pauses_Cons)
    next
      case False
      with eq have "count + 1 < tot" by (cases ts) auto
      with eq ih shown_calls False show ?thesis
        by (simp add: fetches_with_pauses_Cons pause_def)
    qed
  qed
  ultimately show ?case by blast
qed

lemma all_tickers_Cons [simp]: "all_tickers ((name, ts) # table) = ts @ all_tickers table"
  by (simp add: all_tickers_def)

lemma all_tickers_Nil [simp]: "all_tickers [] = []"
  by (simp add: all_tickers_def)

lemma sector_loop_calls:
  assumes "sector_loop con yf tot count evs table = (evs', Inr k)"
    and "count + length (all_tickers table) = tot"
  shows "calls evs' = calls evs @ fetches_with_pauses (all_tickers table)"
  using assms
proof (induction table arbitrary: count evs)
  case Nil
  then show ?case by simp
next
  case (Cons sector table)
  obtain name ts where sector: "sector = (name, ts)"
    by (cases sector)
  let ?header = "[10 # replicate 60 61, name, replicate 60 61 @ [10]]"
  obtain evs1 pr where header: "print_all con evs ?header = (evs1, pr)"
    by (cases "print_all con evs ?header")
  with Cons.prems(1) sector have pr: "pr = None"
    by (cases pr) (simp_all del: print_all.simps)
  obtain evs2 tr where inner: "ticker_loop con yf tot (length ts) 0 count evs1 ts = (evs2, tr)"
    by (cases "ticker_loop con yf tot (length ts) 0 count evs1 ts")
  with Cons.prems(1) sector header pr obtain k1 where tr: "tr = Inr k1"
    by (cases tr) (simp_all del: print_all.simps)
  obtain evs3 pr3 where blank: "print_all con evs2 [[10]] = (evs3, pr3)"
    by (cases "print_all con evs2 [[10]]")
  with Cons.prems(1) sector header pr inner tr have pr3: "pr3 = None"
    by (cases pr3) (simp_all del: print_all.simps)
  from Cons.prems(1) sector header pr inner tr blank pr3
  have rest: "sector_loop con yf tot k1 evs3 table = (evs', Inr k)"
    by (simp del: print_all.simps)
  from Cons.prems(2) sector have bound: "count + length ts \<le> tot"
    and total: "count + length ts + length (all_tickers table) = tot"
    by simp_all
  from ticker_loop_calls [OF inner [unfolded tr] bound]
  have k1: "k1 = count + length ts"
    and tcalls: "calls evs2 = calls evs1 @ (if count + length ts < tot then fetches_all_paused ts
                   else fetches_with_pauses ts)"
    by simp_all
  from total k1 have "k1 + length (all_tickers table) = tot" by simp
  note ih = Cons.IH [OF rest this]
  have c1: "calls evs1 = calls evs"
    by (rule print_all_calls [OF header])
  have c3: "calls evs3 = calls evs2"
    by (rule print_all_calls [OF blank])
  have "(if count + length ts < tot then fetches_all_paused ts else fetches_with_pauses ts)
      @ fetches_with_pauses (all_tickers table) = fetches_with_pauses (ts @ all_tickers table)"
  proof (cases "all_tickers table = []")
    case True
    with total show ?thesis by simp
  next
    case False
    with total have "count + length ts < tot" by (cases "all_tickers table") auto
    with False show ?thesis
      by (simp add: fetches_with_pauses_append)
  qed
  with ih c1 c3 tcalls sector show ?case by simp
qed

lemma total_tickers_length:
  "sum_list (map (\<lambda>(sector_name, tickers). length tickers) table) = length (all_tickers table)"
  by (induction table) (auto simp: all_tickers_def)

lemma run_calls:
  assumes "snd (run con yf table) = None"
  shows "calls (fst (run con yf table)) = fetches_with_pauses (all_tickers table)"
proof -
  obtain evs0 pr0 where start: "print_all con [] [start_message] = (evs0, pr0)"
    by (cases "print_all con [] [start_message]")
  with assms have pr0: "pr0 = None"
    by (cases pr0) (simp_all add: run_def del: print_all.simps)
  obtain evs1 r where loop:
    "sector_loop con yf (length (all_tickers table)) 0 evs0 table = (evs1, r)"
    by (cases "sector_loop con yf (length (all_tickers table)) 0 evs0 table")
  with assms start pr0 obtain k where r: "r = Inr k"
    by (cases r) (simp_all add: run_def total_tickers_length del: print_all.simps)
  obtain evs2 pr2 where final: "print_all con evs1 [end_message] = (evs2, pr2)"
    by (cases "print_all con evs1 [end_message]")
  from start pr0 loop r final have result: "fst (run con yf table) = evs2"
    by (simp add: run_def total_tickers_length del: print_all.simps)
  have "calls evs2 = calls evs1"
    by (rule print_all_calls [OF final])
  moreover have "calls evs1 = calls evs0 @ fetches_with_pauses (all_tickers table)"
    using sector_loop_calls [OF loop [unfolded r]] by simp
  moreover have "calls evs0 = calls []"
    by (rule print_all_calls [OF start])
  ultimately show ?thesis
    using result by simp
qed

lemma ticker_loop_completes:
  assumes con: "\<forall>evs s. con evs s = None"
    and yf: "\<forall>t e. yf t = Inl e \<longrightarrow> is_Exception e"
  shows "\<exists>evs' k. ticker_loop con yf tot n i count evs ts = (evs', Inr k)"
proof (induction ts arbitrary: i count evs)
  case Nil
  then show ?case by simp
next
  case (Cons t ts)
  have "\<exists>printed d. get_stock_data (con (evs @ [Fetch t])) yf t = (printed, Inr d)"
    using con yf by (intro get_stock_data_returns) simp
  then obtain printed d where
    fetch: "get_stock_data (con (evs @ [Fetch t])) yf t = (printed, Inr d)"
    by blast
  let ?texts = "format_stock_summary d t # (if int i < int n - 1 then [10 # ascii ''---''] else [])"
  obtain evs1 where shown:
    "print_all con (evs @ Fetch t # map Print printed) ?texts = (evs1, None)"
    using print_all_reliable [OF con] by blast
  from Cons.IH [of "i + 1" "count + 1"
      "evs1 @ (if count + 1 < tot then [Sleep (Finite False (1 / 2))] else [])"]
    fetch shown
  show ?case
    by (simp del: print_all.simps)
qed

lemma sector_loop_completes:
  assumes con: "\<forall>evs s. con evs s = None"
    and yf: "\<forall>t e. yf t = Inl e \<longrightarrow> is_Exception e"
  shows "\<exists>evs' k. sector_loop con yf tot count evs table = (evs', Inr k)"
proof (induction table arbitrary: count evs)
  case Nil
  then show ?case by simp
next
  case (Cons sector table)
  obtain name ts where sector: "sector = (name, ts)"
    by (cases sector)
  obtain evs1 where header:
    "print_all con evs [10 # replicate 60 61, name, replicate 60 61 @ [10]] = (evs1, None)"
    using print_all_reliable [OF con] by blast
  obtain evs2 k1 where inner:
    "ticker_loop con yf tot (length ts) 0 count evs1 ts = (evs2, Inr k1)"
    using ticker_loop_completes [OF con yf] by blast
  obtain evs3 where blank: "print_all con evs2 [[10]] = (evs3, None)"
    using print_all_reliable [OF con] by blast
  from Cons.IH [of k1 evs3] sector header inner blank show ?case
    by (simp del: print_all.simps)
qed

lemma run_completes:
  assumes con: "\<forall>evs s. con evs s = None"
    and yf: "\<forall>t e. yf t = Inl e \<longrightarrow> is_Exception e"
  shows "snd (run con yf table) = None"
proof -
  obtain evs0 where start: "print_all con [] [start_message] = (evs0, None)"
    using print_all_reliable [OF con] by blast
  obtain evs1 k where loop:
    "sector_loop con yf (length (all_tickers table)) 0 evs0 table = (evs1, Inr k)"
    using sector_loop_completes [OF con yf] by blast
  obtain evs2 where final: "print_all con evs1 [end_message] = (evs2, None)"
    using print_all_reliable [OF con] by blast
  from start loop final show ?thesis
    by (simp add: run_def total_tickers_length del: print_all.simps)
qed

lemma filter_fetch_calls: "filter is_fetch evs = filter is_fetch (calls evs)"
proof -
  have "is_fetch e \<Longrightarrow> \<not> is_print e" for e
    by (cases e) simp_all
  then have "(\<lambda>e. \<not> is_print e \<and> is_fetch e) = is_fetch"
    by blast
  then show ?thesis
    by (simp add: calls_def)
qed

lemma filter_sleep_calls: "filter is_sleep evs = filter is_sleep (calls evs)"
proof -
  have "is_sleep e \<Longrightarrow> \<not> is_print e" for e
    by (cases e) simp_all
  then have "(\<lambda>e. \<not> is_print e \<and> is_sleep e) = is_sleep"
    by blast
  then show ?thesis
    by (simp add: calls_def)
qed

lemma fetches_of_schedule: "filter is_fetch (fetches_with_pauses ts) = map Fetch ts"
  by (induction ts rule: fetches_with_pauses.induct) (simp_all add: pause_def)

lemma sleeps_of_schedule: "length (filter is_sleep (fetches_with_pauses ts)) = length ts - 1"
  by (induction ts rule: fetches_with_pauses.induct) (simp_all add: pause_def)

lemma watchlist_size: "length (all_tickers SECTOR_TICKERS) = 29"
  by (simp add: all_tickers_def SECTOR_TICKERS_def)

text \<open>
  Claim C8. A full run over a table of \<open>N\<close> tickers, that is a run that ends normally,
  makes exactly \<open>N\<close> fetches, in the order of the sectors and, within a sector, of its
  tickers, with a pause of half a second between every two consecutive fetches and none
  after the last one: \<open>N - 1\<close> pauses. For the watchlist of the source that is 29 fetches
  and 28 pauses. A run ends normally whenever standard output takes every text and the
  provider raises instances of \<^verbatim>\<open>Exception\<close> only.
\<close>

theorem run_schedule:
  "(snd (run con yf table) = None \<longrightarrow>
      calls (fst (run con yf table)) = fetches_with_pauses (all_tickers table)
      \<and> filter is_fetch (fst (run con yf table)) = map Fetch (all_tickers table)
      \<and> length (filter is_sleep (fst (run con yf table))) = length (all_tickers table) - 1)
   \<and> (snd (main con yf) = None \<longrightarrow>
      length (filter is_fetch (fst (main con yf))) = 29
      \<and> length (filter is_sleep (fst (main con yf))) = 28)
   \<and> ((\<forall>evs s. con evs s = None) \<and> (\<forall>t e. yf t = Inl e \<longrightarrow> is_Exception e) \<longrightarrow>
      snd (run con yf table) = None \<and> snd (main con yf) = None)"
proof -
  have general: "filter is_fetch (fst (run con yf tbl)) = map Fetch (all_tickers tbl)
      \<and> length (filter is_sleep (fst (run con yf tbl))) = length (all_tickers tbl) - 1"
    if "snd (run con yf tbl) = None" for tbl
    using run_calls [OF that]
    by (simp add: filter_fetch_calls [of "fst (run con yf tbl)"]
        filter_sleep_calls [of "fst (run con yf tbl)"] fetches_of_schedule sleeps_of_schedule)
  have watchlist: "length (filter is_fetch (fst (main con yf))) = 29
      \<and> length (filter is_sleep (fst (main con yf))) = 28"
    if "snd (main con yf) = None"
    using general [of SECTOR_TICKERS] that
    by (simp add: main_def watchlist_size)
  have completes: "snd (run con yf tbl) = None"
    if "\<forall>evs s. con evs s = None" and "\<forall>t e. yf t = Inl e \<longrightarrow> is_Exception e" for tbl
    using that by (rule run_completes)
  from general [of table] run_calls [of con yf table] watchlist completes [of table]
    completes [of SECTOR_TICKERS]
  show ?thesis
    by (auto simp: main_def)
qed

lemma small_table_tickers: "all_tickers small_table = [ascii ''A'', ascii ''B'', ascii ''C'']"
  by (simp add: all_tickers_def small_table_def)

text \<open>Three tickers in two sectors, an empty sector between them, every fetch failing.\<close>

theorem run_schedule_witness:
  "(\<forall>evs s. reliable_console evs s = None)
   \<and> (\<forall>t. failing_provider t = Inl (Exn True long_message))
   \<and> is_Exception (Exn True long_message)
   \<and> snd (run reliable_console failing_provider small_table) = None
   \<and> calls (fst (run reliable_console failing_provider small_table))
     = [Fetch (ascii ''A''), Sleep (Finite False (1 / 2)), Fetch (ascii ''B''),
        Sleep (Finite False (1 / 2)), Fetch (ascii ''C'')]"
proof -
  have con: "\<forall>evs s. reliable_console evs s = None"
    by (simp add: reliable_console_def reliable_stdout_def)
  have yf: "\<forall>t e. failing_provider t = Inl e \<longrightarrow> is_Exception e"
    by (auto simp: failing_provider_def)
  note t = run_schedule [of reliable_console failing_provider small_table]
  from t con yf have ended: "snd (run reliable_console failing_provider small_table) = None"
    by blast
  with t have "calls (fst (run reliable_console failing_provider small_table))
      = fetches_with_pauses (all_tickers small_table)"
    by blast
  then have "calls (fst (run reliable_console failing_provider small_table))
     = [Fetch (ascii ''A''), Sleep (Finite False (1 / 2)), Fetch (ascii ''B''),
        Sleep (Finite False (1 / 2)), Fetch (ascii ''C'')]"
    by (simp add: small_table_tickers pause_def)
  moreover have "\<forall>t. failing_provider t = Inl (Exn True long_message)"
    by (simp add: failing_provider_def)
  ultimately show ?thesis
    using con ended by simp
qed

end
